theory Spec2Isabelle
  imports Complex_Main "HOL-Library.Sublist"
begin

section \<open>Python strings\<close>

text \<open>
  A Python \<open>str\<close> is modelled as a \<open>string\<close>, one \<open>char\<close> per character, the 256 values of
  \<open>char\<close> read as the code points U+0000 to U+00FF. \<open>lower_char\<close> is \<open>str.lower()\<close> on that
  range: the letters A to Z and the capital letters of the Latin-1 block (U+00C0 to U+00DE
  without the multiplication sign U+00D7) move up by 32, every other character stays.
\<close>

definition lower_char :: "char \<Rightarrow> char" where
  "lower_char c =
     (let n = (of_char c :: nat)
      in if (65 \<le> n \<and> n \<le> 90) \<or> (192 \<le> n \<and> n \<le> 214) \<or> (216 \<le> n \<and> n \<le> 222)
         then char_of (n + 32) else c)"

definition lower :: "string \<Rightarrow> string" where
  "lower s = map lower_char s"

text \<open>\<open>str_contains s k\<close> is Python's \<open>k in s\<close> on strings: \<open>k\<close> occurs in \<open>s\<close> as a
  contiguous run of characters.\<close>

fun str_contains :: "string \<Rightarrow> string \<Rightarrow> bool" where
  "str_contains [] k = (k = [])"
| "str_contains (c # s) k = (prefix k (c # s) \<or> str_contains s k)"

text \<open>\<open>any(p(x) for x in xs)\<close>.\<close>

definition py_any :: "('a \<Rightarrow> bool) \<Rightarrow> 'a list \<Rightarrow> bool" where
  "py_any p xs = list_ex p xs"

section \<open>Intent classification (src/agents/orchestrator.py, \<open>_classify_intent\<close>)\<close>

record intent =
  primary_agent :: string
  secondary_agents :: "string list"
  complexity :: string
  keywords_found :: "string list"

definition cost_keywords :: "string list" where
  "cost_keywords = [''cost'', ''save'', ''savings'', ''expensive'', ''budget'', ''reduce'',
     ''optimize'', ''financial'']"

definition analysis_keywords :: "string list" where
  "analysis_keywords = [''analyze'', ''performance'', ''quality'', ''score'', ''compare'',
     ''benchmark'', ''trend'']"

definition report_keywords :: "string list" where
  "report_keywords = [''report'', ''summary'', ''document'', ''generate'', ''download'', ''pdf'',
     ''presentation'']"

definition complex_keywords :: "string list" where
  "complex_keywords = [''comprehensive'', ''detailed'', ''full analysis'', ''complete'',
     ''everything'']"

definition default_intent :: intent where
  "default_intent = \<lparr>primary_agent = ''network_analysis'', secondary_agents = [],
     complexity = ''simple'', keywords_found = []\<rparr>"

definition classify_intent :: "string \<Rightarrow> intent" where
  "classify_intent user_query =
     (let query_lower = lower user_query;
          intent = default_intent
      in if py_any (\<lambda>keyword. str_contains query_lower keyword) complex_keywords then
           intent\<lparr>complexity := ''complex'',
                  primary_agent := ''multi_agent'',
                  secondary_agents :=
                    [''network_analysis'', ''cost_optimization'', ''report_generation'']\<rparr>
         else if py_any (\<lambda>keyword. str_contains query_lower keyword) cost_keywords then
           intent\<lparr>primary_agent := ''cost_optimization'',
                  keywords_found := keywords_found intent
                    @ filter (\<lambda>k. str_contains query_lower k) cost_keywords\<rparr>
         else if py_any (\<lambda>keyword. str_contains query_lower keyword) report_keywords then
           intent\<lparr>primary_agent := ''report_generation'',
                  keywords_found := keywords_found intent
                    @ filter (\<lambda>k. str_contains query_lower k) report_keywords\<rparr>
         else if py_any (\<lambda>keyword. str_contains query_lower keyword) analysis_keywords then
           intent\<lparr>primary_agent := ''network_analysis'',
                  keywords_found := keywords_found intent
                    @ filter (\<lambda>k. str_contains query_lower k) analysis_keywords\<rparr>
         else intent)"

section \<open>Python values and exceptions\<close>

text \<open>
  The exception classes the code can meet. \<open>Timeout\<close>, \<open>ConnectTimeout\<close>, \<open>ReadTimeout\<close>,
  \<open>ConnectionError\<close>, \<open>HTTPError\<close>, \<open>InvalidJSONError\<close>, \<open>RequestsJSONDecodeError\<close> and
  \<open>RequestException\<close> are the classes of \<open>requests.exceptions\<close>; the others are built-in.
  All of them derive from \<open>Exception\<close>. A raised exception carries its class and the text
  that \<open>str(e)\<close> gives.
\<close>

datatype exc_class =
    Timeout | ConnectTimeout | ReadTimeout | ConnectionError | HTTPError
  | InvalidJSONError | RequestsJSONDecodeError | RequestException
  | NameError | AttributeError | IndexError | KeyError | TypeError | ValueError | MemoryError

datatype py_exception = PyExc (exc_class: exc_class) (exc_str: string)

text \<open>\<open>isinstance(e, requests.exceptions.Timeout)\<close> and
  \<open>isinstance(e, requests.exceptions.RequestException)\<close>.\<close>

fun is_timeout :: "exc_class \<Rightarrow> bool" where
  "is_timeout Timeout = True"
| "is_timeout ConnectTimeout = True"
| "is_timeout ReadTimeout = True"
| "is_timeout _ = False"

fun is_request_exception :: "exc_class \<Rightarrow> bool" where
  "is_request_exception ConnectionError = True"
| "is_request_exception HTTPError = True"
| "is_request_exception InvalidJSONError = True"
| "is_request_exception RequestsJSONDecodeError = True"
| "is_request_exception RequestException = True"
| "is_request_exception c = is_timeout c"

text \<open>
  Requests, results, the provider snapshot and decoded JSON bodies are Python values built
  from \<open>None\<close>, booleans, numbers, strings, lists and dictionaries with string keys. A
  dictionary is an association list in insertion order with distinct keys.
\<close>

datatype pyval =
    PyNone | PyBool bool | PyInt int | PyFloat real | PyStr string
  | PyList "pyval list" | PyDict "(string \<times> pyval) list"

fun type_name :: "pyval \<Rightarrow> string" where
  "type_name PyNone = ''NoneType''"
| "type_name (PyBool _) = ''bool''"
| "type_name (PyInt _) = ''int''"
| "type_name (PyFloat _) = ''float''"
| "type_name (PyStr _) = ''str''"
| "type_name (PyList _) = ''list''"
| "type_name (PyDict _) = ''dict''"

definition quoted :: "string \<Rightarrow> string" where
  "quoted s = [CHR 0x27] @ s @ [CHR 0x27]"

definition no_attribute :: "string \<Rightarrow> string \<Rightarrow> py_exception" where
  "no_attribute tn attr =
     PyExc AttributeError (quoted tn @ '' object has no attribute '' @ quoted attr)"

text \<open>Sequencing of two steps: when the first raises, the exception propagates and the
  second does not run.\<close>

fun py_then :: "py_exception + 'a \<Rightarrow> ('a \<Rightarrow> py_exception + 'b) \<Rightarrow> py_exception + 'b" where
  "py_then (Inl e) f = Inl e"
| "py_then (Inr x) f = f x"

text \<open>\<open>d.get(key, default)\<close>: only a dictionary has the method.\<close>

fun dict_get :: "pyval \<Rightarrow> string \<Rightarrow> pyval \<Rightarrow> py_exception + pyval" where
  "dict_get (PyDict kvs) k d = Inr (case map_of kvs k of Some v \<Rightarrow> v | None \<Rightarrow> d)"
| "dict_get v k d = Inl (no_attribute (type_name v) ''get'')"

text \<open>\<open>d[key] = value\<close> on the association list of a dictionary.\<close>

fun dict_set :: "string \<Rightarrow> pyval \<Rightarrow> (string \<times> pyval) list \<Rightarrow> (string \<times> pyval) list" where
  "dict_set k v [] = [(k, v)]"
| "dict_set k v ((k', v') # kvs) =
     (if k' = k then (k, v) # kvs else (k', v') # dict_set k v kvs)"

text \<open>\<open>x[0]\<close>.\<close>

fun index0 :: "pyval \<Rightarrow> py_exception + pyval" where
  "index0 (PyList []) = Inl (PyExc IndexError ''list index out of range'')"
| "index0 (PyList (x # xs)) = Inr x"
| "index0 (PyStr []) = Inl (PyExc IndexError ''string index out of range'')"
| "index0 (PyStr (c # s)) = Inr (PyStr [c])"
| "index0 (PyDict kvs) = Inl (PyExc KeyError ''0'')"
| "index0 v = Inl (PyExc TypeError (quoted (type_name v) @ '' object is not subscriptable''))"

section \<open>The LLM Gateway (src/agents/base_agents.py, class \<open>BaseAgent\<close>)\<close>

subsection \<open>\<open>_clean_llm_response\<close>\<close>

text \<open>\<open>s.split(d)\<close> for a separator of one character, and \<open>sep.join(ls)\<close>.\<close>

fun str_split :: "char \<Rightarrow> string \<Rightarrow> string list" where
  "str_split d [] = [[]]"
| "str_split d (c # s) =
     (if c = d then [] # str_split d s
      else (case str_split d s of l # ls \<Rightarrow> (c # l) # ls | [] \<Rightarrow> [[c]]))"

fun str_join :: "string \<Rightarrow> string list \<Rightarrow> string" where
  "str_join sep [] = []"
| "str_join sep [l] = l"
| "str_join sep (l # ls) = l @ sep @ str_join sep ls"

text \<open>
  \<open>str.strip()\<close> removes the characters for which \<open>str.isspace()\<close> holds from both ends:
  below U+0100 these are U+0009 to U+000D, U+001C to U+0020, U+0085 and U+00A0.
\<close>

definition is_space :: "char \<Rightarrow> bool" where
  "is_space c =
     (let n = (of_char c :: nat)
      in (9 \<le> n \<and> n \<le> 13) \<or> (28 \<le> n \<and> n \<le> 32) \<or> n = 133 \<or> n = 160)"

definition strip :: "string \<Rightarrow> string" where
  "strip s = rev (dropWhile is_space (rev (dropWhile is_space s)))"

definition skip_phrases :: "string list" where
  "skip_phrases = [''human:'', ''assistant:'', ''user:'', ''system:'', ''response:'']"

text \<open>\<open>any(skip_phrase in line.lower() for skip_phrase in [...])\<close>.\<close>

definition has_skip_phrase :: "string \<Rightarrow> bool" where
  "has_skip_phrase line =
     py_any (\<lambda>skip_phrase. str_contains (lower line) skip_phrase) skip_phrases"

text \<open>The \<open>for line in lines\<close> loop, with \<open>cleaned_lines\<close> as accumulator.\<close>

fun clean_loop :: "string list \<Rightarrow> string list \<Rightarrow> string list" where
  "clean_loop [] cleaned_lines = cleaned_lines"
| "clean_loop (line # lines) cleaned_lines =
     (if \<not> has_skip_phrase line
      then clean_loop lines (cleaned_lines @ [line])
      else clean_loop lines cleaned_lines)"

definition clean_llm_response :: "string \<Rightarrow> string" where
  "clean_llm_response response =
     (let lines = str_split (CHR 0x0A) response;
          cleaned_lines = clean_loop lines [];
          cleaned_response = strip (str_join [CHR 0x0A] cleaned_lines)
      in if length cleaned_response > 2000
         then take 2000 cleaned_response @ ''...''
         else cleaned_response)"

text \<open>The method applied to whatever value \<open>generated_text\<close> holds: only a \<open>str\<close> has
  \<open>split\<close>.\<close>

fun clean_llm_response_of :: "pyval \<Rightarrow> py_exception + string" where
  "clean_llm_response_of (PyStr s) = Inr (clean_llm_response s)"
| "clean_llm_response_of v = Inl (no_attribute (type_name v) ''split'')"

subsection \<open>\<open>call_llm\<close>\<close>

text \<open>
  The remote service is a parameter. \<open>requests.post(url, headers=headers, json=data,
  timeout=60)\<close> either raises or returns a response; of a response the model keeps the status
  code, the text of the \<open>HTTPError\<close> that \<open>raise_for_status()\<close> builds for it, and what
  \<open>response.json()\<close> does (the decoded body, or the exception it raises). The service is
  a function of what is sent to it; no property below compares two calls. The temperature
  is a float that is only passed on, never computed with.
\<close>

record http_response =
  status_code :: nat
  http_error_text :: string
  json_body :: "py_exception + pyval"

type_synonym transport = "string \<Rightarrow> int \<Rightarrow> real \<Rightarrow> py_exception + http_response"

definition raise_for_status :: "http_response \<Rightarrow> py_exception + unit" where
  "raise_for_status response =
     (if 400 \<le> status_code response \<and> status_code response < 600
      then Inl (PyExc HTTPError (http_error_text response)) else Inr ())"

text \<open>The statements inside \<open>try\<close>.\<close>

definition call_llm_try :: "transport \<Rightarrow> string \<Rightarrow> int \<Rightarrow> real \<Rightarrow> py_exception + string" where
  "call_llm_try post prompt max_tokens temperature =
     py_then (post prompt max_tokens temperature) (\<lambda>response.
     py_then (raise_for_status response) (\<lambda>_.
     py_then (json_body response) (\<lambda>result.
     py_then (dict_get result ''predictions'' (PyList [PyDict []])) (\<lambda>predictions.
     py_then (index0 predictions) (\<lambda>prediction.
     py_then (dict_get prediction ''generated_text'' (PyStr [])) (\<lambda>generated_text.
       clean_llm_response_of generated_text))))))"

text \<open>The three \<open>except\<close> clauses, in the order of the source.\<close>

definition call_llm :: "transport \<Rightarrow> string \<Rightarrow> int \<Rightarrow> real \<Rightarrow> py_exception + string" where
  "call_llm post prompt max_tokens temperature =
     (case call_llm_try post prompt max_tokens temperature of
        Inr text \<Rightarrow> Inr text
      | Inl e \<Rightarrow>
          if is_timeout (exc_class e) then Inr ''Request timed out. Please try again.''
          else if is_request_exception (exc_class e)
            then Inr (''Sorry, I encountered an error: '' @ exc_str e)
          else Inr ''An unexpected error occurred. Please try again.'')"

section \<open>The environment of the agents\<close>

text \<open>
  The context formatters (\<open>_format_network_context\<close> and its siblings) interpolate floats
  with format specifications (\<open>:.1f\<close>, \<open>:,.0f\<close>) and arbitrary values with \<open>str()\<close>; what
  they return, or the exception they raise on a snapshot of the wrong shape, is a parameter
  of the model. \<open>str_of\<close> is the text an f-string puts for a value that is not a \<open>str\<close>.
\<close>

record formatters =
  str_of :: "pyval \<Rightarrow> string"
  format_provider_context :: "pyval \<Rightarrow> pyval \<Rightarrow> py_exception + string"
  format_network_context :: "pyval \<Rightarrow> py_exception + string"
  format_cost_context :: "pyval \<Rightarrow> pyval \<Rightarrow> pyval \<Rightarrow> pyval \<Rightarrow> py_exception + string"
  format_executive_context :: "pyval \<Rightarrow> py_exception + string"
  format_provider_diagnostics_context :: "pyval \<Rightarrow> py_exception + string"

text \<open>
  A world fixes the remote service, the reading of the clock, the formatters, and for each
  of the four modules the names bound at its top level (by its \<open>import\<close> statements and
  its class definition). A global name that a function body uses is looked up there when
  the body runs.
\<close>

record world =
  post :: transport
  clock :: string
  fmt :: formatters
  orchestrator_names :: "string list"
  network_analyzer_names :: "string list"
  cost_optimizer_names :: "string list"
  report_generator_names :: "string list"

text \<open>
  The top-level names of the four modules as the source files bind them. The modules
  import each other as \<open>.base_agent\<close>, \<open>.network_analyzer_agent\<close>,
  \<open>.cost_optimizer_agent\<close> and \<open>.report_generator_agent\<close>; the model takes these
  imports to resolve to the four agent files of the repository. \<open>BaseAgent\<close> is the only
  name an agent module takes from the base module, whose own \<open>datetime\<close> import it does
  not see.
\<close>

definition source_world :: "transport \<Rightarrow> string \<Rightarrow> formatters \<Rightarrow> world" where
  "source_world p c F =
     \<lparr>post = p, clock = c, fmt = F,
      orchestrator_names = [''Dict'', ''Any'', ''List'', ''Optional'', ''json'', ''BaseAgent'',
        ''NetworkAnalyzerAgent'', ''CostOptimizerAgent'', ''ReportGeneratorAgent'',
        ''AgentOrchestrator''],
      network_analyzer_names = [''Dict'', ''Any'', ''List'', ''pd'', ''BaseAgent'',
        ''NetworkAnalyzerAgent''],
      cost_optimizer_names = [''Dict'', ''Any'', ''List'', ''BaseAgent'', ''CostOptimizerAgent''],
      report_generator_names = [''Dict'', ''Any'', ''List'', ''BaseAgent'',
        ''ReportGeneratorAgent'']\<rparr>"

definition name_error :: "string \<Rightarrow> py_exception" where
  "name_error n = PyExc NameError (''name '' @ quoted n @ '' is not defined'')"

text \<open>\<open>datetime.now().isoformat()\<close> in a module whose top-level names are \<open>names\<close>.\<close>

definition datetime_now_isoformat :: "string list \<Rightarrow> string \<Rightarrow> py_exception + string" where
  "datetime_now_isoformat names c =
     (if ''datetime'' \<in> set names then Inr c else Inl (name_error ''datetime''))"

definition interpolate :: "formatters \<Rightarrow> pyval \<Rightarrow> string" where
  "interpolate F v = (case v of PyStr s \<Rightarrow> s | _ \<Rightarrow> str_of F v)"

text \<open>The dictionary that the \<open>except Exception as e\<close> clause of each
  \<open>process_request\<close> returns.\<close>

definition failure_result :: "py_exception \<Rightarrow> string \<Rightarrow> pyval" where
  "failure_result e message =
     PyDict [(''success'', PyBool False),
             (''error'', PyStr (exc_str e)),
             (''message'', PyStr message)]"

section \<open>NetworkAnalyzerAgent (src/agents/network_analyzer_agent.py)\<close>

definition network_analyzer_system_prompt :: "string" where
  "network_analyzer_system_prompt = concat
    [''\<newline>'',
     ''        You are a Network Analysis Expert specializing in healthcare provider networks.\<newline>'',
     ''        Your role is to analyze provider performance, identify trends, and provide insights.\<newline>'',
     ''        \<newline>'',
     ''        Key responsibilities:\<newline>'',
     ''        - Analyze provider quality scores and efficiency metrics\<newline>'',
     ''        - Identify top and bottom performers\<newline>'',
     ''        - Calculate network averages and benchmarks\<newline>'',
     ''        - Provide specific, data-driven insights\<newline>'',
     ''        \<newline>'',
     ''        Always provide:\<newline>'',
     ''        1. Clear performance summaries\<newline>'',
     ''        2. Specific metrics and comparisons\<newline>'',
     ''        3. Actionable insights\<newline>'',
     ''        4. Risk assessments where applicable\<newline>'',
     ''        \<newline>'',
     ''        Keep responses concise, data-focused, and professional.\<newline>'',
     ''        '']"

definition provider_performance_prompt :: "string \<Rightarrow> string \<Rightarrow> string" where
  "provider_performance_prompt system_prompt context = concat
    [''\<newline>'',
     ''        '', system_prompt, ''\<newline>'',
     ''        \<newline>'',
     ''        Provider Performance Analysis Request:\<newline>'',
     ''        '', context, ''\<newline>'',
     ''        \<newline>'',
     ''        Please provide a comprehensive performance analysis including:\<newline>'',
     ''        1. Performance summary (scores, efficiency, quality)\<newline>'',
     ''        2. Comparison to network averages\<newline>'',
     ''        3. Strengths and areas for improvement\<newline>'',
     ''        4. Specific recommendations\<newline>'',
     ''        5. Risk assessment\<newline>'',
     ''        \<newline>'',
     ''        Format as a structured analysis with clear sections.\<newline>'',
     ''        '']"

definition network_summary_prompt :: "string \<Rightarrow> string \<Rightarrow> string" where
  "network_summary_prompt system_prompt context = concat
    [''\<newline>'',
     ''        '', system_prompt, ''\<newline>'',
     ''        \<newline>'',
     ''        Network Summary Analysis:\<newline>'',
     ''        '', context, ''\<newline>'',
     ''        \<newline>'',
     ''        Provide a comprehensive network performance summary:\<newline>'',
     ''        1. Overall network health assessment\<newline>'',
     ''        2. Key performance indicators\<newline>'',
     ''        3. Top performers and concerning providers\<newline>'',
     ''        4. Geographic coverage analysis\<newline>'',
     ''        5. Priority improvement areas\<newline>'',
     ''        \<newline>'',
     ''        Focus on actionable insights for network management.\<newline>'',
     ''        '']"

definition analyze_provider_performance :: "world \<Rightarrow> pyval \<Rightarrow> pyval \<Rightarrow> py_exception + pyval" where
  "analyze_provider_performance w data provider_id =
     py_then (format_provider_context (fmt w) data provider_id) (\<lambda>context.
     py_then (call_llm (post w)
                (provider_performance_prompt network_analyzer_system_prompt context)
                1000 0.3) (\<lambda>analysis.
     py_then (datetime_now_isoformat (network_analyzer_names w) (clock w)) (\<lambda>timestamp.
       Inr (PyDict [(''success'', PyBool True),
                    (''analysis_type'', PyStr ''provider_performance''),
                    (''provider_id'', provider_id),
                    (''analysis'', PyStr analysis),
                    (''timestamp'', PyStr timestamp)]))))"

definition analyze_network_summary :: "world \<Rightarrow> pyval \<Rightarrow> py_exception + pyval" where
  "analyze_network_summary w data =
     py_then (format_network_context (fmt w) data) (\<lambda>context.
     py_then (call_llm (post w)
                (network_summary_prompt network_analyzer_system_prompt context)
                1000 0.3) (\<lambda>analysis.
     py_then (datetime_now_isoformat (network_analyzer_names w) (clock w)) (\<lambda>timestamp.
       Inr (PyDict [(''success'', PyBool True),
                    (''analysis_type'', PyStr ''network_summary''),
                    (''analysis'', PyStr analysis),
                    (''timestamp'', PyStr timestamp)]))))"

text \<open>
  The statements inside \<open>try\<close>. The class defines \<open>_analyze_provider_performance\<close> and
  \<open>_analyze_network_summary\<close>; \<open>_analyze_quality_trends\<close>, \<open>_analyze_cost_performance\<close> and
  \<open>_general_network_analysis\<close> are defined neither in it nor in \<open>BaseAgent\<close>, so looking
  them up on \<open>self\<close> raises \<open>AttributeError\<close>.
\<close>

definition network_analyzer_try :: "world \<Rightarrow> pyval \<Rightarrow> pyval \<Rightarrow> pyval \<Rightarrow> py_exception + pyval" where
  "network_analyzer_try w analysis_type provider_data specific_provider =
     (if analysis_type = PyStr ''provider_performance''
        then analyze_provider_performance w provider_data specific_provider
      else if analysis_type = PyStr ''network_summary''
        then analyze_network_summary w provider_data
      else if analysis_type = PyStr ''quality_trends''
        then Inl (no_attribute ''NetworkAnalyzerAgent'' ''_analyze_quality_trends'')
      else if analysis_type = PyStr ''cost_analysis''
        then Inl (no_attribute ''NetworkAnalyzerAgent'' ''_analyze_cost_performance'')
      else Inl (no_attribute ''NetworkAnalyzerAgent'' ''_general_network_analysis''))"

definition network_analyzer_process_request :: "world \<Rightarrow> pyval \<Rightarrow> py_exception + pyval" where
  "network_analyzer_process_request w request =
     py_then (dict_get request ''analysis_type'' (PyStr ''general'')) (\<lambda>analysis_type.
     py_then (dict_get request ''provider_data'' (PyDict [])) (\<lambda>provider_data.
     py_then (dict_get request ''provider_id'' PyNone) (\<lambda>specific_provider.
       (case network_analyzer_try w analysis_type provider_data specific_provider of
          Inr result \<Rightarrow> Inr result
        | Inl e \<Rightarrow> Inr (failure_result e ''Failed to complete network analysis'')))))"

section \<open>CostOptimizerAgent (src/agents/cost_optimzer_agent.py)\<close>

definition cost_optimizer_system_prompt :: "string" where
  "cost_optimizer_system_prompt = concat
    [''\<newline>'',
     ''        You are a Healthcare Cost Optimization Expert with deep expertise in:\<newline>'',
     ''        - Provider cost analysis and benchmarking\<newline>'',
     ''        - Contract negotiation strategies\<newline>'',
     ''        - Network optimization for cost savings\<newline>'',
     ''        - ROI analysis and financial modeling\<newline>'',
     ''        - Value-based care principles\<newline>'',
     ''        \<newline>'',
     ''        Your goal is to identify cost savings opportunities while maintaining or improving quality.\<newline>'',
     ''        \<newline>'',
     ''        Always provide:\<newline>'',
     ''        1. Specific cost savings amounts and percentages\<newline>'',
     ''        2. Risk assessment for each recommendation\<newline>'',
     ''        3. Implementation timelines\<newline>'',
     ''        4. Impact on quality and access\<newline>'',
     ''        5. Actionable next steps\<newline>'',
     ''        \<newline>'',
     ''        Be precise with financial calculations and realistic about achievable savings.\<newline>'',
     ''        '']"

definition cost_reduction_prompt :: "string \<Rightarrow> string \<Rightarrow> string" where
  "cost_reduction_prompt system_prompt context = concat
    [''\<newline>'',
     ''        '', system_prompt, ''\<newline>'',
     ''        \<newline>'',
     ''        Cost Reduction Strategy Request:\<newline>'',
     ''        '', context, ''\<newline>'',
     ''        \<newline>'',
     ''        Generate 3-4 specific cost reduction strategies that achieve the target savings:\<newline>'',
     ''        \<newline>'',
     ''        For each strategy, provide:\<newline>'',
     ''        1. Strategy name and description\<newline>'',
     ''        2. Specific providers/actions involved\<newline>'',
     ''        3. Projected savings ($ amount and %)\<newline>'',
     ''        4. Risk level (Low/Medium/High)\<newline>'',
     ''        5. Implementation timeline\<newline>'',
     ''        6. Quality impact assessment\<newline>'',
     ''        7. Step-by-step implementation plan\<newline>'',
     ''        \<newline>'',
     ''        Ensure strategies are realistic and consider the constraints provided.\<newline>'',
     ''        Prioritize strategies by potential savings and feasibility.\<newline>'',
     ''        '']"

definition generate_cost_reduction_strategies ::
  "world \<Rightarrow> pyval \<Rightarrow> pyval \<Rightarrow> pyval \<Rightarrow> pyval \<Rightarrow> py_exception + pyval" where
  "generate_cost_reduction_strategies w data target savings_type constraints =
     py_then (format_cost_context (fmt w) data target savings_type constraints) (\<lambda>context.
     py_then (call_llm (post w)
                (cost_reduction_prompt cost_optimizer_system_prompt context)
                1500 0.3) (\<lambda>strategies.
     py_then (datetime_now_isoformat (cost_optimizer_names w) (clock w)) (\<lambda>timestamp.
       Inr (PyDict [(''success'', PyBool True),
                    (''optimization_type'', PyStr ''cost_reduction''),
                    (''target_savings'', target),
                    (''savings_type'', savings_type),
                    (''strategies'', PyStr strategies),
                    (''timestamp'', PyStr timestamp)]))))"

text \<open>
  The statements inside \<open>try\<close>. Of the five methods the branches call, the class defines
  \<open>_generate_cost_reduction_strategies\<close> only.
\<close>

definition cost_optimizer_try ::
  "world \<Rightarrow> pyval \<Rightarrow> pyval \<Rightarrow> pyval \<Rightarrow> pyval \<Rightarrow> pyval \<Rightarrow> py_exception + pyval" where
  "cost_optimizer_try w optimization_type target_savings savings_type provider_data constraints =
     (if optimization_type = PyStr ''cost_reduction''
        then generate_cost_reduction_strategies w provider_data target_savings savings_type
               constraints
      else if optimization_type = PyStr ''contract_analysis''
        then Inl (no_attribute ''CostOptimizerAgent'' ''_analyze_contract_opportunities'')
      else if optimization_type = PyStr ''provider_replacement''
        then Inl (no_attribute ''CostOptimizerAgent'' ''_analyze_provider_replacement_options'')
      else if optimization_type = PyStr ''network_efficiency''
        then Inl (no_attribute ''CostOptimizerAgent'' ''_analyze_network_efficiency'')
      else Inl (no_attribute ''CostOptimizerAgent'' ''_general_cost_analysis''))"

definition cost_optimizer_process_request :: "world \<Rightarrow> pyval \<Rightarrow> py_exception + pyval" where
  "cost_optimizer_process_request w request =
     py_then (dict_get request ''optimization_type'' (PyStr ''general'')) (\<lambda>optimization_type.
     py_then (dict_get request ''target_savings'' PyNone) (\<lambda>target_savings.
     py_then (dict_get request ''savings_type'' (PyStr ''percentage'')) (\<lambda>savings_type.
     py_then (dict_get request ''provider_data'' (PyDict [])) (\<lambda>provider_data.
     py_then (dict_get request ''constraints'' (PyDict [])) (\<lambda>constraints.
       (case cost_optimizer_try w optimization_type target_savings savings_type provider_data
               constraints of
          Inr result \<Rightarrow> Inr result
        | Inl e \<Rightarrow>
            Inr (failure_result e ''Failed to complete cost optimization analysis'')))))))"

section \<open>ReportGeneratorAgent (src/agents/report_generator_agent.py)\<close>

definition report_generator_system_prompt :: "string" where
  "report_generator_system_prompt = concat
    [''\<newline>'',
     ''        You are a Healthcare Network Reporting Specialist with expertise in creating:\<newline>'',
     ''        - Executive summaries and board presentations\<newline>'',
     ''        - Detailed provider performance reports\<newline>'',
     ''        - Regulatory compliance documentation\<newline>'',
     ''        - Strategic analysis reports\<newline>'',
     ''        - Network optimization recommendations\<newline>'',
     ''        \<newline>'',
     ''        Your reports should be:\<newline>'',
     ''        1. Clear and accessible to non-technical audiences\<newline>'',
     ''        2. Well-structured with logical flow\<newline>'',
     ''        3. Data-driven with specific metrics\<newline>'',
     ''        4. Action-oriented with clear recommendations\<newline>'',
     ''        5. Professional and suitable for executive review\<newline>'',
     ''        \<newline>'',
     ''        Use simple language while maintaining professional tone.\<newline>'',
     ''        Include executive summaries, key findings, and actionable recommendations.\<newline>'',
     ''        '']"

definition executive_summary_prompt :: "string \<Rightarrow> string \<Rightarrow> string \<Rightarrow> string" where
  "executive_summary_prompt system_prompt audience context = concat
    [''\<newline>'',
     ''        '', system_prompt, ''\<newline>'',
     ''        \<newline>'',
     ''        Generate an Executive Summary for '', audience, '' with the following network data:\<newline>'',
     ''        '', context, ''\<newline>'',
     ''        \<newline>'',
     ''        Structure the report as follows:\<newline>'',
     ''        \<newline>'',
     ''        # EXECUTIVE SUMMARY - Provider Network Performance\<newline>'',
     ''        \<newline>'',
     ''        ## Key Highlights\<newline>'',
     ''        - [3-4 most important findings]\<newline>'',
     ''        \<newline>'',
     ''        ## Network Performance Overview\<newline>'',
     ''        - [Overall health assessment]\<newline>'',
     ''        - [Key metrics summary]\<newline>'',
     ''        \<newline>'',
     ''        ## Strategic Priorities\<newline>'',
     ''        - [Top 3 priority actions]\<newline>'',
     ''        \<newline>'',
     ''        ## Financial Impact\<newline>'',
     ''        - [Cost savings opportunities]\<newline>'',
     ''        - [ROI projections]\<newline>'',
     ''        \<newline>'',
     ''        ## Risk Assessment\<newline>'',
     ''        - [Key risks and mitigation strategies]\<newline>'',
     ''        \<newline>'',
     ''        ## Recommendations\<newline>'',
     ''        - [Specific, actionable next steps]\<newline>'',
     ''        \<newline>'',
     ''        Keep each section concise (2-3 sentences) and focus on business impact.\<newline>'',
     ''        Use clear, non-technical language suitable for executives.\<newline>'',
     ''        '']"

definition provider_diagnostics_prompt :: "string \<Rightarrow> string \<Rightarrow> string" where
  "provider_diagnostics_prompt system_prompt context = concat
    [''\<newline>'',
     ''        '', system_prompt, ''\<newline>'',
     ''        \<newline>'',
     ''        Generate a comprehensive Provider Diagnostics Report:\<newline>'',
     ''        '', context, ''\<newline>'',
     ''        \<newline>'',
     ''        Create a detailed report with these sections:\<newline>'',
     ''        \<newline>'',
     ''        # PROVIDER NETWORK DIAGNOSTICS REPORT\<newline>'',
     ''        \<newline>'',
     ''        ## Executive Summary\<newline>'',
     ''        - [Brief overview of network health]\<newline>'',
     ''        \<newline>'',
     ''        ## Network Performance Analysis\<newline>'',
     ''        - [Overall performance metrics and trends]\<newline>'',
     ''        \<newline>'',
     ''        ## Provider Performance Breakdown\<newline>'',
     ''        - [Top performers analysis]\<newline>'',
     ''        - [Underperforming providers analysis]\<newline>'',
     ''        - [Performance distribution insights]\<newline>'',
     ''        \<newline>'',
     ''        ## Quality vs Cost Analysis\<newline>'',
     ''        - [Quality-cost positioning analysis]\<newline>'',
     ''        - [Value-based performance insights]\<newline>'',
     ''        \<newline>'',
     ''        ## Geographic Coverage Assessment\<newline>'',
     ''        - [Coverage strengths and gaps]\<newline>'',
     ''        - [Market opportunity analysis]\<newline>'',
     ''        \<newline>'',
     ''        ## Clinical Specialty Analysis\<newline>'',
     ''        - [Specialty-specific performance]\<newline>'',
     ''        - [Capacity and utilization insights]\<newline>'',
     ''        \<newline>'',
     ''        ## Risk Assessment\<newline>'',
     ''        - [Provider-specific risks]\<newline>'',
     ''        - [Network stability concerns]\<newline>'',
     ''        \<newline>'',
     ''        ## Strategic Recommendations\<newline>'',
     ''        - [Specific improvement actions]\<newline>'',
     ''        - [Provider management strategies]\<newline>'',
     ''        - [Network optimization opportunities]\<newline>'',
     ''        \<newline>'',
     ''        Use data-driven insights and provide specific, actionable recommendations.\<newline>'',
     ''        Include relevant metrics and comparisons throughout.\<newline>'',
     ''        '']"

definition generate_executive_summary :: "world \<Rightarrow> pyval \<Rightarrow> pyval \<Rightarrow> py_exception + pyval" where
  "generate_executive_summary w data audience =
     py_then (format_executive_context (fmt w) data) (\<lambda>context.
     py_then (call_llm (post w)
                (executive_summary_prompt report_generator_system_prompt
                   (interpolate (fmt w) audience) context)
                1200 0.3) (\<lambda>report.
     py_then (datetime_now_isoformat (report_generator_names w) (clock w)) (\<lambda>timestamp.
       Inr (PyDict [(''success'', PyBool True),
                    (''report_type'', PyStr ''executive_summary''),
                    (''audience'', audience),
                    (''report_content'', PyStr report),
                    (''timestamp'', PyStr timestamp)]))))"

definition generate_provider_diagnostics_report :: "world \<Rightarrow> pyval \<Rightarrow> py_exception + pyval" where
  "generate_provider_diagnostics_report w data =
     py_then (format_provider_diagnostics_context (fmt w) data) (\<lambda>context.
     py_then (call_llm (post w)
                (provider_diagnostics_prompt report_generator_system_prompt context)
                1800 0.3) (\<lambda>report.
     py_then (datetime_now_isoformat (report_generator_names w) (clock w)) (\<lambda>timestamp.
       Inr (PyDict [(''success'', PyBool True),
                    (''report_type'', PyStr ''provider_diagnostics''),
                    (''report_content'', PyStr report),
                    (''timestamp'', PyStr timestamp)]))))"

text \<open>
  The statements inside \<open>try\<close>. The class defines \<open>_generate_executive_summary\<close> and
  \<open>_generate_provider_diagnostics_report\<close>; the other four methods are not defined.
\<close>

definition report_generator_try ::
  "world \<Rightarrow> pyval \<Rightarrow> pyval \<Rightarrow> pyval \<Rightarrow> pyval \<Rightarrow> py_exception + pyval" where
  "report_generator_try w report_type audience data focus_areas =
     (if report_type = PyStr ''executive_summary''
        then generate_executive_summary w data audience
      else if report_type = PyStr ''provider_diagnostics''
        then generate_provider_diagnostics_report w data
      else if report_type = PyStr ''cost_optimization''
        then Inl (no_attribute ''ReportGeneratorAgent'' ''_generate_cost_optimization_report'')
      else if report_type = PyStr ''quality_analysis''
        then Inl (no_attribute ''ReportGeneratorAgent'' ''_generate_quality_analysis_report'')
      else if report_type = PyStr ''network_adequacy''
        then Inl (no_attribute ''ReportGeneratorAgent'' ''_generate_network_adequacy_report'')
      else Inl (no_attribute ''ReportGeneratorAgent'' ''_generate_comprehensive_report''))"

definition report_generator_process_request :: "world \<Rightarrow> pyval \<Rightarrow> py_exception + pyval" where
  "report_generator_process_request w request =
     py_then (dict_get request ''report_type'' (PyStr ''network_summary'')) (\<lambda>report_type.
     py_then (dict_get request ''audience'' (PyStr ''network_manager'')) (\<lambda>audience.
     py_then (dict_get request ''data'' (PyDict [])) (\<lambda>data.
     py_then (dict_get request ''focus_areas'' (PyList [])) (\<lambda>focus_areas.
       (case report_generator_try w report_type audience data focus_areas of
          Inr result \<Rightarrow> Inr result
        | Inl e \<Rightarrow> Inr (failure_result e ''Failed to generate report''))))))"

section \<open>AgentOrchestrator (src/agents/orchestrator.py)\<close>

text \<open>The object's mutable state is its conversation history; the three agents are fixed.\<close>

record orchestrator =
  conversation_history :: "pyval list"

datatype agent = NetworkAnalyzer | CostOptimizer | ReportGenerator

definition agent_routes :: "(string \<times> agent) list" where
  "agent_routes = [(''network_analysis'', NetworkAnalyzer),
                   (''cost_optimization'', CostOptimizer),
                   (''report_generation'', ReportGenerator)]"

fun process_request :: "agent \<Rightarrow> world \<Rightarrow> pyval \<Rightarrow> py_exception + pyval" where
  "process_request NetworkAnalyzer w request = network_analyzer_process_request w request"
| "process_request CostOptimizer w request = cost_optimizer_process_request w request"
| "process_request ReportGenerator w request = report_generator_process_request w request"

text \<open>The intent dictionary as a Python value, where it is stored in a request.\<close>

definition intent_value :: "intent \<Rightarrow> pyval" where
  "intent_value i =
     PyDict [(''primary_agent'', PyStr (primary_agent i)),
             (''secondary_agents'', PyList (map PyStr (secondary_agents i))),
             (''complexity'', PyStr (complexity i)),
             (''keywords_found'', PyList (map PyStr (keywords_found i)))]"

definition build_agent_request :: "string \<Rightarrow> pyval \<Rightarrow> intent \<Rightarrow> pyval" where
  "build_agent_request user_query context intent =
     (let base_request = [(''user_query'', PyStr user_query),
                          (''provider_data'', context),
                          (''intent'', intent_value intent)]
      in if primary_agent intent = ''cost_optimization'' then
           (if str_contains (lower user_query) ''save'' \<or> str_contains (lower user_query) ''reduce''
            then PyDict (dict_set ''optimization_type'' (PyStr ''cost_reduction'') base_request)
            else PyDict (dict_set ''optimization_type'' (PyStr ''general'') base_request))
         else if primary_agent intent = ''network_analysis'' then
           (if py_any (\<lambda>provider_term. str_contains (lower user_query) provider_term)
                 [''dr.'', ''provider'', ''doctor'']
            then PyDict (dict_set ''analysis_type'' (PyStr ''provider_performance'') base_request)
            else PyDict (dict_set ''analysis_type'' (PyStr ''network_summary'') base_request))
         else if primary_agent intent = ''report_generation'' then
           (if str_contains (lower user_query) ''executive''
               \<or> str_contains (lower user_query) ''summary''
            then PyDict (dict_set ''report_type'' (PyStr ''executive_summary'') base_request)
            else PyDict (dict_set ''report_type'' (PyStr ''provider_diagnostics'') base_request))
         else PyDict base_request)"

definition handle_general_query :: "world \<Rightarrow> string \<Rightarrow> pyval \<Rightarrow> py_exception + pyval" where
  "handle_general_query w user_query context =
     network_analyzer_process_request w
       (PyDict [(''analysis_type'', PyStr ''general''),
                (''user_query'', PyStr user_query),
                (''provider_data'', context)])"

definition integration_prompt :: "string \<Rightarrow> string \<Rightarrow> string \<Rightarrow> string \<Rightarrow> string" where
  "integration_prompt user_query analysis strategies report_content = concat
    [''\<newline>'',
     ''        User asked: \"'', user_query, ''\"\<newline>'',
     ''        \<newline>'',
     ''        Agent Responses:\<newline>'',
     ''        \<newline>'',
     ''        Network Analysis:\<newline>'',
     ''        '', analysis, ''\<newline>'',
     ''        \<newline>'',
     ''        Cost Optimization:\<newline>'',
     ''        '', strategies, ''\<newline>'',
     ''        \<newline>'',
     ''        Report Content:\<newline>'',
     ''        '', report_content, ''\<newline>'',
     ''        \<newline>'',
     ''        Please integrate these agent responses into a single, coherent response that:\<newline>'',
     ''        1. Directly answers the user's question\<newline>'',
     ''        2. Combines insights from all agents\<newline>'',
     ''        3. Provides a logical flow of information\<newline>'',
     ''        4. Includes specific recommendations\<newline>'',
     ''        5. Uses clear, professional language\<newline>'',
     ''        \<newline>'',
     ''        Format as a well-structured response with clear sections.\<newline>'',
     ''        '']"

text \<open>The integration call goes through the network analyzer's \<open>call_llm\<close>.\<close>

definition integrate_agent_responses :: "world \<Rightarrow> string \<Rightarrow> pyval \<Rightarrow> py_exception + string" where
  "integrate_agent_responses w user_query agent_responses =
     py_then (dict_get agent_responses ''network_analysis'' (PyDict [])) (\<lambda>network_result.
     py_then (dict_get network_result ''analysis'' (PyStr ''Not available'')) (\<lambda>analysis.
     py_then (dict_get agent_responses ''cost_optimization'' (PyDict [])) (\<lambda>cost_result.
     py_then (dict_get cost_result ''strategies'' (PyStr ''Not available'')) (\<lambda>strategies.
     py_then (dict_get agent_responses ''report_generation'' (PyDict [])) (\<lambda>report_result.
     py_then (dict_get report_result ''report_content'' (PyStr ''Not available''))
       (\<lambda>report_content.
       call_llm (post w)
         (integration_prompt user_query (interpolate (fmt w) analysis)
            (interpolate (fmt w) strategies) (interpolate (fmt w) report_content))
         1500 0.3))))))"

text \<open>
  \<open>_handle_multi_agent_request\<close>. The dictionary literal of \<open>results\<close> is evaluated first,
  its \<open>timestamp\<close> entry last; \<open>agent_responses\<close> is the dictionary stored under
  \<open>results["agent_responses"]\<close>, filled in place by the three steps.
\<close>

definition handle_multi_agent_request ::
  "world \<Rightarrow> string \<Rightarrow> pyval \<Rightarrow> intent \<Rightarrow> py_exception + pyval" where
  "handle_multi_agent_request w user_query context intent =
     py_then (datetime_now_isoformat (orchestrator_names w) (clock w)) (\<lambda>timestamp.
     let results = [(''success'', PyBool True),
                    (''multi_agent_response'', PyBool True),
                    (''user_query'', PyStr user_query),
                    (''agent_responses'', PyDict []),
                    (''integrated_response'', PyStr []),
                    (''timestamp'', PyStr timestamp)]
     in
     py_then (if ''network_analysis'' \<in> set (secondary_agents intent)
              then py_then (network_analyzer_process_request w
                              (PyDict [(''analysis_type'', PyStr ''network_summary''),
                                       (''provider_data'', context)]))
                     (\<lambda>analysis_result.
                        Inr (dict_set ''network_analysis'' analysis_result []))
              else Inr []) (\<lambda>agent_responses1.
     py_then (if ''cost_optimization'' \<in> set (secondary_agents intent)
              then py_then (cost_optimizer_process_request w
                              (PyDict [(''optimization_type'', PyStr ''general''),
                                       (''provider_data'', context)]))
                     (\<lambda>cost_result.
                        Inr (dict_set ''cost_optimization'' cost_result agent_responses1))
              else Inr agent_responses1) (\<lambda>agent_responses2.
     py_then (if ''report_generation'' \<in> set (secondary_agents intent)
              then py_then (report_generator_process_request w
                              (PyDict [(''report_type'', PyStr ''comprehensive''),
                                       (''data'', context),
                                       (''focus_areas'',
                                          PyList [PyStr ''performance'', PyStr ''costs'',
                                                  PyStr ''optimization''])]))
                     (\<lambda>report_result.
                        Inr (dict_set ''report_generation'' report_result agent_responses2))
              else Inr agent_responses2) (\<lambda>agent_responses.
     py_then (integrate_agent_responses w user_query (PyDict agent_responses))
       (\<lambda>integrated_response.
       Inr (PyDict (dict_set ''integrated_response'' (PyStr integrated_response)
                      (dict_set ''agent_responses'' (PyDict agent_responses) results))))))))"

text \<open>
  \<open>route_request\<close> returns what the call returns or raises, together with the state of the
  orchestrator after the call. Neither the method nor anything it calls assigns to
  \<open>conversation_history\<close>.
\<close>

definition route_request ::
  "world \<Rightarrow> orchestrator \<Rightarrow> string \<Rightarrow> pyval \<Rightarrow> (py_exception + pyval) \<times> orchestrator" where
  "route_request w self user_query context =
     (let intent = classify_intent user_query
      in if primary_agent intent = ''multi_agent''
         then (handle_multi_agent_request w user_query context intent, self)
         else (case map_of agent_routes (primary_agent intent) of
                 Some agent \<Rightarrow>
                   (process_request agent w (build_agent_request user_query context intent), self)
               | None \<Rightarrow> (handle_general_query w user_query context, self)))"

text \<open>\<open>xs[-50:]\<close>.\<close>

definition last50 :: "'a list \<Rightarrow> 'a list" where
  "last50 xs = drop (length xs - 50) xs"

text \<open>The dictionary literal that \<open>add_to_conversation\<close> builds for the new entry; its
  \<open>timestamp\<close> is evaluated first.\<close>

definition conversation_entry :: "world \<Rightarrow> string \<Rightarrow> pyval \<Rightarrow> py_exception + pyval" where
  "conversation_entry w user_query response =
     py_then (datetime_now_isoformat (orchestrator_names w) (clock w)) (\<lambda>timestamp.
     py_then (dict_get response ''success'' (PyBool False)) (\<lambda>success.
     py_then (dict_get response ''primary_agent'' (PyStr ''unknown'')) (\<lambda>primary.
     py_then (dict_get response ''key_insights'' (PyList [])) (\<lambda>key_insights.
       Inr (PyDict [(''timestamp'', PyStr timestamp),
                    (''user_query'', PyStr user_query),
                    (''response_summary'',
                       PyDict [(''success'', success),
                               (''primary_agent'', primary),
                               (''key_insights'', key_insights)])])))))"

text \<open>\<open>add_to_conversation\<close>: the entry is built, appended, and the history cut to its last
  50 entries when it has more. When building the entry raises, nothing is appended.\<close>

definition add_to_conversation ::
  "world \<Rightarrow> orchestrator \<Rightarrow> string \<Rightarrow> pyval \<Rightarrow> (py_exception + unit) \<times> orchestrator" where
  "add_to_conversation w self user_query response =
     (case conversation_entry w user_query response of
        Inl e \<Rightarrow> (Inl e, self)
      | Inr entry \<Rightarrow>
          (let history = conversation_history self @ [entry]
           in (Inr (), self\<lparr>conversation_history :=
                                (if length history > 50 then last50 history else history)\<rparr>)))"

text \<open>
  A caller that records a sequence of interactions, one \<open>add_to_conversation\<close> call after
  the other, and stops at the first call that raises.
\<close>

fun record_all ::
  "world \<Rightarrow> orchestrator \<Rightarrow> (string \<times> pyval) list \<Rightarrow> (py_exception + unit) \<times> orchestrator" where
  "record_all w self [] = (Inr (), self)"
| "record_all w self ((user_query, response) # rest) =
     (case add_to_conversation w self user_query response of
        (Inl e, self') \<Rightarrow> (Inl e, self')
      | (Inr _, self') \<Rightarrow> record_all w self' rest)"

text \<open>\<open>response.get(k, d)\<close> where it does not raise, and the entry that records the
  interaction \<open>(user_query, response)\<close> at clock reading \<open>c\<close>.\<close>

definition value_or :: "pyval \<Rightarrow> string \<Rightarrow> pyval \<Rightarrow> pyval" where
  "value_or v k d = (case dict_get v k d of Inr x \<Rightarrow> x | Inl e \<Rightarrow> d)"

definition entry_for :: "string \<Rightarrow> string \<Rightarrow> pyval \<Rightarrow> pyval" where
  "entry_for c user_query response =
     PyDict [(''timestamp'', PyStr c),
             (''user_query'', PyStr user_query),
             (''response_summary'',
                PyDict [(''success'', value_or response ''success'' (PyBool False)),
                        (''primary_agent'', value_or response ''primary_agent'' (PyStr ''unknown'')),
                        (''key_insights'', value_or response ''key_insights'' (PyList []))])]"


section \<open>Example environments\<close>

text \<open>A service whose every call times out, and one that answers every prompt with the
  same text.\<close>

definition timeout_transport :: transport where
  "timeout_transport prompt max_tokens temperature =
     Inl (PyExc ReadTimeout ''Read timed out. (read timeout=60)'')"

definition answering_transport :: transport where
  "answering_transport prompt max_tokens temperature =
     Inr \<lparr>status_code = 200, http_error_text = [],
          json_body = Inr (PyDict [(''predictions'',
            PyList [PyDict [(''generated_text'', PyStr ''The network is healthy.'')]])])\<rparr>"

text \<open>
  An example rendering of values in f-strings: \<open>None\<close>, \<open>True\<close> and \<open>False\<close> as Python
  writes them; numbers, lists and dictionaries, whose Python text the examples never
  need, by a placeholder.
\<close>

fun example_str_of :: "pyval \<Rightarrow> string" where
  "example_str_of PyNone = ''None''"
| "example_str_of (PyBool True) = ''True''"
| "example_str_of (PyBool False) = ''False''"
| "example_str_of (PyStr s) = s"
| "example_str_of v = ''...''"

text \<open>Formatters that succeed, as the source's do on an empty snapshot \<open>{}\<close>.\<close>

definition plain_formatters :: formatters where
  "plain_formatters =
     \<lparr>str_of = example_str_of,
      format_provider_context = (\<lambda>data provider_id. Inr ''Provider data not available for analysis.''),
      format_network_context = (\<lambda>data. Inr ''Network Overview:''),
      format_cost_context = (\<lambda>data target savings_type constraints. Inr ''Cost Optimization Parameters:''),
      format_executive_context = (\<lambda>data. Inr ''Network Overview:''),
      format_provider_diagnostics_context = (\<lambda>data. Inr ''Comprehensive Network Data:'')\<rparr>"

text \<open>The source's modules with the answering service, and the same world with the name
  \<open>datetime\<close> bound in each of the four modules.\<close>

definition example_world :: world where
  "example_world = source_world answering_transport ''2024-05-01T10:00:00'' plain_formatters"

definition example_world_with_datetime :: world where
  "example_world_with_datetime =
     example_world\<lparr>orchestrator_names := ''datetime'' # orchestrator_names example_world,
       network_analyzer_names := ''datetime'' # network_analyzer_names example_world,
       cost_optimizer_names := ''datetime'' # cost_optimizer_names example_world,
       report_generator_names := ''datetime'' # report_generator_names example_world\<rparr>"


definition empty_orchestrator :: orchestrator where
  "empty_orchestrator = \<lparr>conversation_history = []\<rparr>"

text \<open>Sixty interactions, numbered by the length of their query.\<close>

definition sixty_interactions :: "(string \<times> pyval) list" where
  "sixty_interactions =
     map (\<lambda>n. (replicate n (CHR ''q''), PyDict [(''success'', PyBool True)])) [1..<61]"

text \<open>A service that refuses the connection, and one that answers with an empty list of
  predictions.\<close>

definition refusing_transport :: transport where
  "refusing_transport prompt max_tokens temperature =
     Inl (PyExc ConnectionError ''Connection refused'')"

definition empty_predictions_transport :: transport where
  "empty_predictions_transport prompt max_tokens temperature =
     Inr \<lparr>status_code = 200, http_error_text = [],
          json_body = Inr (PyDict [(''predictions'', PyList [])])\<rparr>"

text \<open>A service that answers with status 503.\<close>

definition unavailable_transport :: transport where
  "unavailable_transport prompt max_tokens temperature =
     Inr \<lparr>status_code = 503,
          http_error_text = ''503 Server Error: Service Unavailable for url'',
          json_body = Inl (PyExc RequestsJSONDecodeError ''Expecting value: line 1 column 1 (char 0)'')\<rparr>"

text \<open>Two generated texts of 2500 characters without role markers: one of letters only,
  one that starts with a blank.\<close>

definition long_text :: string where
  "long_text = replicate 2500 (CHR ''a'')"

definition padded_text :: string where
  "padded_text = CHR '' '' # replicate 2499 (CHR ''a'')"




text \<open>A query that asks for everything, and the three requests of the examples.\<close>

definition complex_query :: string where
  "complex_query = ''Give me a comprehensive overview''"

definition network_summary_request :: pyval where
  "network_summary_request =
     PyDict [(''analysis_type'', PyStr ''network_summary''), (''provider_data'', PyDict [])]"

definition cost_reduction_request :: pyval where
  "cost_reduction_request =
     PyDict [(''optimization_type'', PyStr ''cost_reduction''), (''provider_data'', PyDict [])]"


definition executive_summary_request :: pyval where
  "executive_summary_request =
     PyDict [(''report_type'', PyStr ''executive_summary''), (''data'', PyDict [])]"

section \<open>Properties of the string operations\<close>

lemma lower_char_idem: "lower_char (lower_char c) = lower_char c"
proof -
  let ?n = "of_char c :: nat"
  show ?thesis
  proof (cases "(65 \<le> ?n \<and> ?n \<le> 90) \<or> (192 \<le> ?n \<and> ?n \<le> 214) \<or> (216 \<le> ?n \<and> ?n \<le> 222)")
    case True
    then have lc: "lower_char c = char_of (?n + 32)"
      by (simp add: lower_char_def)
    from True have "(?n + 32) mod 256 = ?n + 32"
      by auto
    then have "(of_char (char_of (?n + 32) :: char) :: nat) = ?n + 32"
      by simp
    with True show ?thesis
      unfolding lc by (auto simp: lower_char_def Let_def)
  next
    case False
    then have "lower_char c = c"
      by (auto simp: lower_char_def Let_def)
    then show ?thesis by simp
  qed
qed

lemma lower_idem: "lower (lower s) = lower s"
  by (simp add: lower_def lower_char_idem)

lemma str_contains_sublist: "str_contains s k \<longleftrightarrow> sublist k s"
proof (induction s)
  case Nil
  show ?case by simp
next
  case (Cons c s)
  show ?case
  proof (cases "prefix k (c # s)")
    case True
    then show ?thesis by simp
  next
    case False
    then show ?thesis using Cons.IH by (simp add: sublist_Cons_right)
  qed
qed

lemma py_any_contains:
  "py_any (\<lambda>keyword. str_contains s keyword) ks \<longleftrightarrow> (\<exists>k\<in>set ks. sublist k s)"
  by (simp add: py_any_def list_ex_iff str_contains_sublist)

section \<open>Intent classification\<close>

text \<open>
  C1. Classification follows a fixed precedence, first match winning: a complexity keyword
  occurring in the lower-cased query gives the multi-agent intent with all three secondary
  agents, whatever other keywords occur; otherwise a cost keyword gives the cost agent;
  otherwise a report keyword gives the report agent; otherwise an analysis keyword gives
  the analysis agent; and a query with no keyword at all gives the default intent, which
  names the analysis agent. The function returns an intent for every query: it has no
  failure case.
\<close>

theorem classify_intent_precedence:
  "((\<exists>k\<in>set complex_keywords. sublist k (lower q)) \<longrightarrow>
      primary_agent (classify_intent q) = ''multi_agent'' \<and>
      secondary_agents (classify_intent q) =
        [''network_analysis'', ''cost_optimization'', ''report_generation'']) \<and>
   (\<not> (\<exists>k\<in>set complex_keywords. sublist k (lower q)) \<and>
    (\<exists>k\<in>set cost_keywords. sublist k (lower q)) \<longrightarrow>
      primary_agent (classify_intent q) = ''cost_optimization'') \<and>
   (\<not> (\<exists>k\<in>set complex_keywords. sublist k (lower q)) \<and>
    \<not> (\<exists>k\<in>set cost_keywords. sublist k (lower q)) \<and>
    (\<exists>k\<in>set report_keywords. sublist k (lower q)) \<longrightarrow>
      primary_agent (classify_intent q) = ''report_generation'') \<and>
   (\<not> (\<exists>k\<in>set complex_keywords. sublist k (lower q)) \<and>
    \<not> (\<exists>k\<in>set cost_keywords. sublist k (lower q)) \<and>
    \<not> (\<exists>k\<in>set report_keywords. sublist k (lower q)) \<and>
    (\<exists>k\<in>set analysis_keywords. sublist k (lower q)) \<longrightarrow>
      primary_agent (classify_intent q) = ''network_analysis'') \<and>
   (\<not> (\<exists>k\<in>set (complex_keywords @ cost_keywords @ report_keywords @ analysis_keywords).
          sublist k (lower q)) \<longrightarrow>
      classify_intent q = default_intent \<and>
      primary_agent (classify_intent q) = ''network_analysis'')"
  unfolding classify_intent_def Let_def py_any_contains
  by (auto simp: default_intent_def)

theorem classify_intent_precedence_witness:
  "primary_agent (classify_intent ''Give me a COMPLETE cost report'') = ''multi_agent'' \<and>
   secondary_agents (classify_intent ''Give me a COMPLETE cost report'') =
     [''network_analysis'', ''cost_optimization'', ''report_generation''] \<and>
   primary_agent (classify_intent ''Reduce the report score'') = ''cost_optimization'' \<and>
   primary_agent (classify_intent ''Download the quality PDF'') = ''report_generation'' \<and>
   primary_agent (classify_intent ''Benchmark the trend'') = ''network_analysis'' \<and>
   classify_intent ''Hello there'' = default_intent"
proof -
  have a: "\<exists>k\<in>set complex_keywords. sublist k (lower ''Give me a COMPLETE cost report'')"
    by code_simp
  have b: "\<not> (\<exists>k\<in>set complex_keywords. sublist k (lower ''Reduce the report score'')) \<and>
           (\<exists>k\<in>set cost_keywords. sublist k (lower ''Reduce the report score''))"
    by code_simp
  have c: "\<not> (\<exists>k\<in>set complex_keywords. sublist k (lower ''Download the quality PDF'')) \<and>
           \<not> (\<exists>k\<in>set cost_keywords. sublist k (lower ''Download the quality PDF'')) \<and>
           (\<exists>k\<in>set report_keywords. sublist k (lower ''Download the quality PDF''))"
    by code_simp
  have d: "\<not> (\<exists>k\<in>set complex_keywords. sublist k (lower ''Benchmark the trend'')) \<and>
           \<not> (\<exists>k\<in>set cost_keywords. sublist k (lower ''Benchmark the trend'')) \<and>
           \<not> (\<exists>k\<in>set report_keywords. sublist k (lower ''Benchmark the trend'')) \<and>
           (\<exists>k\<in>set analysis_keywords. sublist k (lower ''Benchmark the trend''))"
    by code_simp
  have e: "\<not> (\<exists>k\<in>set (complex_keywords @ cost_keywords @ report_keywords @ analysis_keywords).
                sublist k (lower ''Hello there''))"
    by code_simp
  from a classify_intent_precedence [of "''Give me a COMPLETE cost report''"]
  have 1: "primary_agent (classify_intent ''Give me a COMPLETE cost report'') = ''multi_agent'' \<and>
           secondary_agents (classify_intent ''Give me a COMPLETE cost report'') =
             [''network_analysis'', ''cost_optimization'', ''report_generation'']"
    by blast
  from b classify_intent_precedence [of "''Reduce the report score''"]
  have 2: "primary_agent (classify_intent ''Reduce the report score'') = ''cost_optimization''"
    by blast
  from c classify_intent_precedence [of "''Download the quality PDF''"]
  have 3: "primary_agent (classify_intent ''Download the quality PDF'') = ''report_generation''"
    by blast
  from d classify_intent_precedence [of "''Benchmark the trend''"]
  have 4: "primary_agent (classify_intent ''Benchmark the trend'') = ''network_analysis''"
    by blast
  from e classify_intent_precedence [of "''Hello there''"]
  have 5: "classify_intent ''Hello there'' = default_intent"
    by blast
  from 1 2 3 4 5 show ?thesis by blast
qed

text \<open>
  C9, the claim as stated fails: the query "forecast the next quarter" does not get the
  cost agent. No cost keyword occurs in it ("forecast" contains "cast", not "cost"), nor
  any other keyword, so it gets the default analysis agent.
\<close>

theorem classify_forecast_counterexample:
  "\<not> sublist ''cost'' (lower ''forecast the next quarter'') \<and>
   primary_agent (classify_intent ''forecast the next quarter'') \<noteq> ''cost_optimization''"
  by code_simp

text \<open>
  C9 as amended. Matching is containment of the keyword in the lower-cased query as a
  contiguous run of characters, not matching of whole words: every query in which a cost
  keyword occurs so, and no complexity keyword, gets the cost agent. So does "the
  costliest quarter", where "cost" lies inside a longer word; "forecast the next quarter"
  gets the default analysis agent.
\<close>

theorem classify_cost_substring:
  "((\<exists>k\<in>set cost_keywords. \<exists>before after. lower q = before @ k @ after) \<and>
    \<not> (\<exists>k\<in>set complex_keywords. \<exists>before after. lower q = before @ k @ after) \<longrightarrow>
      primary_agent (classify_intent q) = ''cost_optimization'') \<and>
   primary_agent (classify_intent ''the costliest quarter'') = ''cost_optimization'' \<and>
   classify_intent ''forecast the next quarter'' = default_intent"
proof -
  have general: "primary_agent (classify_intent q) = ''cost_optimization''"
    if "\<exists>k\<in>set cost_keywords. sublist k (lower q)"
      and "\<not> (\<exists>k\<in>set complex_keywords. sublist k (lower q))"
    using that unfolding classify_intent_def Let_def py_any_contains
    by (simp add: default_intent_def)
  have costliest: "primary_agent (classify_intent ''the costliest quarter'') = ''cost_optimization''"
    by code_simp
  have forecast: "classify_intent ''forecast the next quarter'' = default_intent"
    by code_simp
  from general costliest forecast show ?thesis
    unfolding sublist_def by blast
qed

theorem classify_cost_substring_witness:
  "lower ''The COSTLIEST quarter'' = ''the '' @ ''cost'' @ ''liest quarter'' \<and>
   primary_agent (classify_intent ''The COSTLIEST quarter'') = ''cost_optimization''"
proof -
  have l: "lower ''The COSTLIEST quarter'' = ''the '' @ ''cost'' @ ''liest quarter''"
    by code_simp
  have "''cost'' \<in> set cost_keywords"
    by (simp add: cost_keywords_def)
  with l have h1: "\<exists>k\<in>set cost_keywords. \<exists>before after.
      lower ''The COSTLIEST quarter'' = before @ k @ after"
    by blast
  have "\<not> (\<exists>k\<in>set complex_keywords. sublist k (lower ''The COSTLIEST quarter''))"
    by code_simp
  then have h2: "\<not> (\<exists>k\<in>set complex_keywords. \<exists>before after.
      lower ''The COSTLIEST quarter'' = before @ k @ after)"
    unfolding sublist_def by blast
  from h1 h2 classify_cost_substring [of "''The COSTLIEST quarter''"] l
  show ?thesis by blast
qed

text \<open>
  C10. The intent is a function of the lower-cased query alone: two queries with the same
  lower-cased form get the same intent (primary agent, secondary agents, complexity and
  keywords found), and so do a query and its lower-cased form.
\<close>

theorem classify_intent_case_invariant:
  "(lower q = lower q' \<longrightarrow> classify_intent q = classify_intent q') \<and>
   classify_intent (lower q) = classify_intent q"
  by (simp add: classify_intent_def lower_idem)

theorem classify_intent_case_invariant_witness:
  "lower ''Save COSTS'' = lower ''sAVE costs'' \<and>
   classify_intent ''Save COSTS'' = classify_intent ''sAVE costs'' \<and>
   classify_intent (lower ''Save COSTS'') = classify_intent ''Save COSTS''"
proof -
  have h: "lower ''Save COSTS'' = lower ''sAVE costs''"
    by code_simp
  from h classify_intent_case_invariant [of "''Save COSTS''" "''sAVE costs''"]
  show ?thesis by blast
qed

section \<open>The LLM Gateway\<close>

lemma str_split_not_Nil: "str_split d s \<noteq> []"
  by (induction s) (auto split: list.splits)

lemma str_split_parts:
  "str_split d s = l # ls \<Longrightarrow> prefix l s \<and> (\<forall>x\<in>set ls. sublist x s)"
proof (induction s arbitrary: l ls)
  case Nil
  then show ?case by simp
next
  case (Cons c s)
  obtain l' ls' where split: "str_split d s = l' # ls'"
    using str_split_not_Nil [of d s] by (cases "str_split d s") auto
  from Cons.IH [OF split] have pre: "prefix l' s" and subs: "\<forall>x\<in>set ls'. sublist x s"
    by simp_all
  show ?case
  proof (cases "c = d")
    case True
    with Cons.prems split have "l = []" and "ls = l' # ls'" by simp_all
    with pre subs show ?thesis
      by (auto simp: sublist_Cons_right)
  next
    case False
    with Cons.prems split have "l = c # l'" and "ls = ls'" by simp_all
    with pre subs show ?thesis
      by (auto simp: sublist_Cons_right)
  qed
qed

lemma str_split_sublist: "l \<in> set (str_split d s) \<Longrightarrow> sublist l s"
proof -
  assume mem: "l \<in> set (str_split d s)"
  obtain l' ls' where split: "str_split d s = l' # ls'"
    using str_split_not_Nil [of d s] by (cases "str_split d s") auto
  from str_split_parts [OF split] mem split show ?thesis
    by auto
qed

lemma sublist_lower: "sublist l s \<Longrightarrow> sublist (lower l) (lower s)"
proof -
  assume "sublist l s"
  then obtain ps ss where "s = ps @ l @ ss"
    by (auto simp: sublist_def)
  then have "lower s = lower ps @ lower l @ lower ss"
    by (simp add: lower_def)
  then show ?thesis
    unfolding sublist_def by blast
qed

lemma has_skip_phrase_sublist: "sublist l s \<Longrightarrow> has_skip_phrase l \<Longrightarrow> has_skip_phrase s"
  unfolding has_skip_phrase_def py_any_contains
  by (meson sublist_lower sublist_order.order_trans)

lemma clean_loop_filter:
  "clean_loop ls acc = acc @ filter (\<lambda>l. \<not> has_skip_phrase l) ls"
  by (induction ls arbitrary: acc) simp_all

lemma str_join_split: "str_join [d] (str_split d s) = s"
proof (induction s)
  case Nil
  show ?case by simp
next
  case (Cons c s)
  obtain l ls where ls: "str_split d s = l # ls"
    using str_split_not_Nil [of d s] by (cases "str_split d s") auto
  show ?case
  proof (cases "c = d")
    case True
    with Cons ls show ?thesis by simp
  next
    case False
    with Cons ls show ?thesis by (cases ls) auto
  qed
qed

lemma strip_unchanged:
  assumes "s \<noteq> []" and "\<not> is_space (hd s)" and "\<not> is_space (last s)"
  shows "strip s = s"
proof -
  from assms have "dropWhile is_space s = s"
    by (cases s) simp_all
  moreover from assms have "dropWhile is_space (rev s) = rev s"
    by (cases "rev s") (simp_all add: hd_rev)
  ultimately show ?thesis
    by (simp add: strip_def)
qed

lemma clean_unmarked:
  assumes "\<not> has_skip_phrase r"
  shows "clean_loop (str_split (CHR 0x0A) r) [] = str_split (CHR 0x0A) r"
proof -
  have "\<forall>l\<in>set (str_split (CHR 0x0A) r). \<not> has_skip_phrase l"
    using assms has_skip_phrase_sublist str_split_sublist by blast
  then show ?thesis
    by (simp add: clean_loop_filter)
qed

lemma no_colon_no_skip_phrase:
  assumes "CHR '':'' \<notin> set (lower s)"
  shows "\<not> has_skip_phrase s"
proof
  assume "has_skip_phrase s"
  then obtain k where k: "k \<in> set skip_phrases" and sub: "sublist k (lower s)"
    unfolding has_skip_phrase_def py_any_contains by blast
  from k have "CHR '':'' \<in> set k"
    by (auto simp: skip_phrases_def)
  moreover from sub have "set k \<subseteq> set (lower s)"
    by (rule set_mono_sublist)
  ultimately show False
    using assms by blast
qed

lemma lower_char_a: "lower_char (CHR ''a'') = CHR ''a''"
  by (simp add: lower_char_def)

lemma lower_char_blank: "lower_char (CHR '' '') = CHR '' ''"
  by (simp add: lower_char_def)

lemma is_space_a: "\<not> is_space (CHR ''a'')"
  by (simp add: is_space_def)

lemma is_space_blank: "is_space (CHR '' '')"
  by (simp add: is_space_def)

lemma long_text_unmarked: "\<not> has_skip_phrase long_text"
  by (rule no_colon_no_skip_phrase) (simp add: long_text_def lower_def lower_char_a)

lemma padded_text_unmarked: "\<not> has_skip_phrase padded_text"
  by (rule no_colon_no_skip_phrase)
    (simp add: padded_text_def lower_def lower_char_a lower_char_blank)

lemma strip_padded_text: "strip padded_text = replicate 2499 (CHR ''a'')"
  by (simp add: strip_def padded_text_def is_space_a is_space_blank)

lemma clean_padded_text: "clean_llm_response padded_text = replicate 2000 (CHR ''a'') @ ''...''"
  by (simp add: clean_llm_response_def clean_unmarked [OF padded_text_unmarked] str_join_split
      strip_padded_text Let_def)

text \<open>
  C6, the claim as stated fails: a generated text of 2500 characters without role markers
  that starts with a blank is not answered by its first 2000 characters and the ellipsis.
  The blank is stripped first, and the answer starts with the second character.
\<close>

theorem clean_llm_response_counterexample:
  "length padded_text = 2500 \<and> \<not> has_skip_phrase padded_text \<and>
   clean_llm_response padded_text \<noteq> take 2000 padded_text @ ''...''"
proof -
  have "hd (clean_llm_response padded_text) = CHR ''a''"
    by (simp add: clean_padded_text hd_append)
  moreover have "hd (take 2000 padded_text @ ''...'') = CHR '' ''"
    by (simp add: padded_text_def)
  ultimately have "clean_llm_response padded_text \<noteq> take 2000 padded_text @ ''...''"
    by auto
  then show ?thesis
    by (simp add: padded_text_unmarked) (simp add: padded_text_def)
qed

text \<open>
  C6 as amended. The cleaning splits the raw text at newlines, drops every line whose
  lower-cased form contains one of the five role markers, joins the remaining lines with
  newlines, strips leading and trailing whitespace, and, when more than 2000 characters
  remain, keeps the first 2000 and appends three dots; the result has at most 2003
  characters. For a text of 2500 characters that contains no role marker and neither
  starts nor ends with a whitespace character, the result is its first 2000 characters
  followed by the three dots.
\<close>

theorem clean_llm_response_spec:
  "clean_llm_response r =
     (let c = strip (str_join [CHR 0x0A]
                (filter (\<lambda>l. \<not> has_skip_phrase l) (str_split (CHR 0x0A) r)))
      in if length c > 2000 then take 2000 c @ ''...'' else c) \<and>
   length (clean_llm_response r) \<le> 2003 \<and>
   (length r = 2500 \<and> \<not> has_skip_phrase r \<and> \<not> is_space (hd r) \<and> \<not> is_space (last r) \<longrightarrow>
      clean_llm_response r = take 2000 r @ ''...'')"
proof (intro conjI impI)
  show "clean_llm_response r =
     (let c = strip (str_join [CHR 0x0A]
                (filter (\<lambda>l. \<not> has_skip_phrase l) (str_split (CHR 0x0A) r)))
      in if length c > 2000 then take 2000 c @ ''...'' else c)"
    by (simp add: clean_llm_response_def clean_loop_filter Let_def)
  show "length (clean_llm_response r) \<le> 2003"
    by (simp add: clean_llm_response_def Let_def)
  assume h: "length r = 2500 \<and> \<not> has_skip_phrase r \<and> \<not> is_space (hd r) \<and> \<not> is_space (last r)"
  then have "r \<noteq> []" by auto
  with h have "strip r = r" by (simp add: strip_unchanged)
  with h show "clean_llm_response r = take 2000 r @ ''...''"
    by (simp add: clean_llm_response_def clean_unmarked str_join_split Let_def)
qed

theorem clean_llm_response_spec_witness:
  "length long_text = 2500 \<and> \<not> has_skip_phrase long_text \<and>
   \<not> is_space (hd long_text) \<and> \<not> is_space (last long_text) \<and>
   clean_llm_response long_text = take 2000 long_text @ ''...''"
proof -
  have h: "length long_text = 2500 \<and> \<not> has_skip_phrase long_text \<and>
           \<not> is_space (hd long_text) \<and> \<not> is_space (last long_text)"
    by (simp add: long_text_unmarked) (simp add: long_text_def is_space_a)
  with clean_llm_response_spec [of long_text] show ?thesis
    by blast
qed


lemma is_timeout_request: "is_timeout c \<Longrightarrow> is_request_exception c"
  by (cases c) simp_all

lemma call_llm_try_post_raises:
  "service prompt max_tokens temperature = Inl e \<Longrightarrow>
   call_llm_try service prompt max_tokens temperature = Inl e"
  by (simp add: call_llm_try_def)

lemma call_llm_try_http_error:
  "service prompt max_tokens temperature = Inr response \<Longrightarrow>
   400 \<le> status_code response \<Longrightarrow> status_code response < 600 \<Longrightarrow>
   call_llm_try service prompt max_tokens temperature =
     Inl (PyExc HTTPError (http_error_text response))"
  by (simp add: call_llm_try_def raise_for_status_def)

text \<open>
  C2. For every prompt, token budget and temperature, and whatever the remote service
  does, \<open>call_llm\<close> returns a string and raises nothing. When the transport call raises a
  timeout the result is the fixed timeout text; when it raises another exception of the
  transport library, or the response carries an HTTP error status, the result is the
  "Sorry" text followed by the text of the error; when anything else fails inside the
  call (a body of the wrong shape, for one) the result is the generic text.
\<close>

theorem call_llm_never_raises:
  "(\<exists>text. call_llm service prompt max_tokens temperature = Inr text) \<and>
   (\<forall>e. service prompt max_tokens temperature = Inl e \<and> is_timeout (exc_class e) \<longrightarrow>
      call_llm service prompt max_tokens temperature =
        Inr ''Request timed out. Please try again.'') \<and>
   (\<forall>e. service prompt max_tokens temperature = Inl e \<and> \<not> is_timeout (exc_class e) \<and>
        is_request_exception (exc_class e) \<longrightarrow>
      call_llm service prompt max_tokens temperature =
        Inr (''Sorry, I encountered an error: '' @ exc_str e)) \<and>
   (\<forall>response. service prompt max_tokens temperature = Inr response \<and>
        400 \<le> status_code response \<and> status_code response < 600 \<longrightarrow>
      call_llm service prompt max_tokens temperature =
        Inr (''Sorry, I encountered an error: '' @ http_error_text response)) \<and>
   (\<forall>e. call_llm_try service prompt max_tokens temperature = Inl e \<and>
        \<not> is_request_exception (exc_class e) \<longrightarrow>
      call_llm service prompt max_tokens temperature =
        Inr ''An unexpected error occurred. Please try again.'')"
proof (intro conjI allI impI)
  show "\<exists>text. call_llm service prompt max_tokens temperature = Inr text"
    by (cases "call_llm_try service prompt max_tokens temperature") (simp_all add: call_llm_def)
next
  fix e
  assume "service prompt max_tokens temperature = Inl e \<and> is_timeout (exc_class e)"
  then show "call_llm service prompt max_tokens temperature =
      Inr ''Request timed out. Please try again.''"
    by (simp add: call_llm_def call_llm_try_post_raises)
next
  fix e
  assume "service prompt max_tokens temperature = Inl e \<and> \<not> is_timeout (exc_class e) \<and>
      is_request_exception (exc_class e)"
  then show "call_llm service prompt max_tokens temperature =
      Inr (''Sorry, I encountered an error: '' @ exc_str e)"
    by (simp add: call_llm_def call_llm_try_post_raises)
next
  fix response
  assume "service prompt max_tokens temperature = Inr response \<and>
      400 \<le> status_code response \<and> status_code response < 600"
  then show "call_llm service prompt max_tokens temperature =
      Inr (''Sorry, I encountered an error: '' @ http_error_text response)"
    by (simp add: call_llm_def call_llm_try_http_error)
next
  fix e
  assume a: "call_llm_try service prompt max_tokens temperature = Inl e \<and>
      \<not> is_request_exception (exc_class e)"
  then have "\<not> is_timeout (exc_class e)"
    using is_timeout_request by blast
  with a show "call_llm service prompt max_tokens temperature =
      Inr ''An unexpected error occurred. Please try again.''"
    by (simp add: call_llm_def)
qed

theorem call_llm_never_raises_witness:
  "call_llm timeout_transport ''Summarise the network'' 1000 0.3 =
     Inr ''Request timed out. Please try again.'' \<and>
   call_llm refusing_transport ''Summarise the network'' 1000 0.3 =
     Inr ''Sorry, I encountered an error: Connection refused'' \<and>
   call_llm unavailable_transport ''Summarise the network'' 1000 0.3 =
     Inr ''Sorry, I encountered an error: 503 Server Error: Service Unavailable for url'' \<and>
   call_llm empty_predictions_transport ''Summarise the network'' 1000 0.3 =
     Inr ''An unexpected error occurred. Please try again.''"
proof -
  have t: "timeout_transport ''Summarise the network'' 1000 0.3 =
        Inl (PyExc ReadTimeout ''Read timed out. (read timeout=60)'') \<and>
      is_timeout (exc_class (PyExc ReadTimeout ''Read timed out. (read timeout=60)''))"
    by (simp add: timeout_transport_def)
  have r: "refusing_transport ''Summarise the network'' 1000 0.3 =
        Inl (PyExc ConnectionError ''Connection refused'') \<and>
      \<not> is_timeout (exc_class (PyExc ConnectionError ''Connection refused'')) \<and>
      is_request_exception (exc_class (PyExc ConnectionError ''Connection refused''))"
    by (simp add: refusing_transport_def)
  have u: "unavailable_transport ''Summarise the network'' 1000 0.3 =
        Inr \<lparr>status_code = 503,
             http_error_text = ''503 Server Error: Service Unavailable for url'',
             json_body = Inl (PyExc RequestsJSONDecodeError
               ''Expecting value: line 1 column 1 (char 0)'')\<rparr>"
    by (simp add: unavailable_transport_def)
  have m: "call_llm_try empty_predictions_transport ''Summarise the network'' 1000 0.3 =
        Inl (PyExc IndexError ''list index out of range'') \<and>
      \<not> is_request_exception (exc_class (PyExc IndexError ''list index out of range''))"
    by (simp add: call_llm_try_def empty_predictions_transport_def raise_for_status_def)
  from t call_llm_never_raises [of timeout_transport "''Summarise the network''" 1000 "0.3"]
  have 1: "call_llm timeout_transport ''Summarise the network'' 1000 0.3 =
      Inr ''Request timed out. Please try again.''"
    by blast
  from r call_llm_never_raises [of refusing_transport "''Summarise the network''" 1000 "0.3"]
  have 2: "call_llm refusing_transport ''Summarise the network'' 1000 0.3 =
      Inr (''Sorry, I encountered an error: '' @
           exc_str (PyExc ConnectionError ''Connection refused''))"
    by blast
  from u call_llm_never_raises [of unavailable_transport "''Summarise the network''" 1000 "0.3"]
  have 3: "call_llm unavailable_transport ''Summarise the network'' 1000 0.3 =
      Inr (''Sorry, I encountered an error: '' @
           ''503 Server Error: Service Unavailable for url'')"
    by simp
  from m call_llm_never_raises [of empty_predictions_transport "''Summarise the network''" 1000 "0.3"]
  have 4: "call_llm empty_predictions_transport ''Summarise the network'' 1000 0.3 =
      Inr ''An unexpected error occurred. Please try again.''"
    by blast
  from 1 2 3 4 show ?thesis
    by simp
qed

section \<open>The conversation log\<close>

lemma last50_append: "last50 (last50 xs @ ys) = last50 (xs @ ys)"
proof (cases "length xs \<le> 50")
  case True
  then show ?thesis by (simp add: last50_def)
next
  case False
  then have n: "50 < length xs" by simp
  then have len: "length (drop (length xs - 50) xs) = 50" by simp
  have "last50 (last50 xs @ ys) = drop (length ys) (drop (length xs - 50) xs @ ys)"
    unfolding last50_def using len by simp
  also have "\<dots> = drop (length ys + (length xs - 50)) xs @ drop (length ys - 50) ys"
    using len by simp
  also have "length ys + (length xs - 50) = length xs + length ys - 50"
    using n by arith
  also have "drop (length xs + length ys - 50) xs @ drop (length ys - 50) ys = last50 (xs @ ys)"
    unfolding last50_def using n by (simp add: )
  finally show ?thesis .
qed

lemma add_to_conversation_history:
  assumes "add_to_conversation w self user_query response = (Inr (), self')"
  shows "conversation_history self' =
           last50 (conversation_history self @ [entry_for (clock w) user_query response])"
proof -
  from assms obtain entry where entry: "conversation_entry w user_query response = Inr entry"
    by (cases "conversation_entry w user_query response") (simp_all add: add_to_conversation_def)
  then have bound: "datetime_now_isoformat (orchestrator_names w) (clock w) = Inr (clock w)"
    by (auto simp: conversation_entry_def datetime_now_isoformat_def split: if_splits)
  from entry obtain kvs where kvs: "response = PyDict kvs"
    by (cases response) (simp_all add: conversation_entry_def bound)
  from entry have "entry = entry_for (clock w) user_query response"
    by (simp add: conversation_entry_def bound kvs entry_for_def value_or_def)
  with assms entry show ?thesis
    by (auto simp: add_to_conversation_def Let_def last50_def)
qed

lemma record_all_history:
  "record_all w self interactions = (Inr (), self') \<Longrightarrow>
   length (conversation_history self) \<le> 50 \<Longrightarrow>
   conversation_history self' =
     last50 (conversation_history self
             @ map (\<lambda>(user_query, response). entry_for (clock w) user_query response)
                 interactions)"
proof (induction interactions arbitrary: self)
  case Nil
  then show ?case
    by (simp add: last50_def)
next
  case (Cons x interactions)
  obtain user_query response where x: "x = (user_query, response)"
    by (cases x)
  obtain outcome mid where step: "add_to_conversation w self user_query response = (outcome, mid)"
    by (cases "add_to_conversation w self user_query response")
  with Cons.prems(1) x have ok: "outcome = Inr ()"
    and rest: "record_all w mid interactions = (Inr (), self')"
    by (cases outcome; simp)+
  from step ok have mid: "conversation_history mid =
      last50 (conversation_history self @ [entry_for (clock w) user_query response])"
    by (simp add: add_to_conversation_history)
  then have short: "length (conversation_history mid) \<le> 50"
    by (simp add: last50_def)
  let ?es = "map (\<lambda>(user_query, response). entry_for (clock w) user_query response) interactions"
  have "conversation_history self' = last50 (conversation_history mid @ ?es)"
    by (rule Cons.IH [OF rest short])
  also have "\<dots> = last50 ((conversation_history self
       @ [entry_for (clock w) user_query response]) @ ?es)"
    unfolding mid by (rule last50_append)
  finally show ?case
    by (simp add: x)
qed

lemma record_all_completes:
  assumes "''datetime'' \<in> set (orchestrator_names w)"
    and "\<forall>x\<in>set interactions. \<exists>kvs. snd x = PyDict kvs"
  shows "\<exists>self'. record_all w self interactions = (Inr (), self')"
  using assms(2)
proof (induction interactions arbitrary: self)
  case Nil
  show ?case by simp
next
  case (Cons x interactions)
  obtain user_query response where x: "x = (user_query, response)"
    by (cases x)
  with Cons.prems obtain kvs where kvs: "response = PyDict kvs"
    by auto
  from assms(1) have "\<exists>entry. conversation_entry w user_query response = Inr entry"
    by (simp add: conversation_entry_def datetime_now_isoformat_def kvs)
  then obtain mid where "add_to_conversation w self user_query response = (Inr (), mid)"
    by (auto simp: add_to_conversation_def Let_def)
  moreover from Cons.prems have "\<forall>x\<in>set interactions. \<exists>kvs. snd x = PyDict kvs"
    by simp
  then have "\<exists>self'. record_all w mid interactions = (Inr (), self')"
    by (rule Cons.IH)
  ultimately show ?case
    by (simp add: x)
qed

text \<open>
  C3, the claim as stated fails: a route that completes leaves the conversation log as it
  was. The query "how can we save money" is routed to the cost agent; with the source's
  modules the route returns the agent's failure result, with \<open>datetime\<close> bound in every
  module it returns a result with \<open>success = True\<close>, and in both cases the log of the
  orchestrator is still empty.
\<close>

theorem route_request_log_counterexample:
  "route_request example_world empty_orchestrator ''how can we save money'' (PyDict []) =
     (Inr (failure_result (name_error ''datetime'')
            ''Failed to complete cost optimization analysis''), empty_orchestrator) \<and>
   route_request example_world_with_datetime empty_orchestrator ''how can we save money''
       (PyDict []) =
     (Inr (PyDict [(''success'', PyBool True),
                   (''optimization_type'', PyStr ''cost_reduction''),
                   (''target_savings'', PyNone),
                   (''savings_type'', PyStr ''percentage''),
                   (''strategies'', PyStr ''The network is healthy.''),
                   (''timestamp'', PyStr ''2024-05-01T10:00:00'')]), empty_orchestrator) \<and>
   conversation_history empty_orchestrator = []"
proof -
  have intent: "primary_agent (classify_intent ''how can we save money'') = ''cost_optimization''"
    by code_simp
  have request: "build_agent_request ''how can we save money'' (PyDict [])
        (classify_intent ''how can we save money'') =
      PyDict [(''user_query'', PyStr ''how can we save money''),
              (''provider_data'', PyDict []),
              (''intent'', intent_value (classify_intent ''how can we save money'')),
              (''optimization_type'', PyStr ''cost_reduction'')]"
    unfolding build_agent_request_def Let_def intent
    by (simp add: str_contains_sublist) code_simp
  have answer: "call_llm answering_transport p 1500 0.3 = Inr ''The network is healthy.''" for p
    by (simp add: call_llm_def call_llm_try_def answering_transport_def raise_for_status_def
        clean_llm_response_def strip_def is_space_def has_skip_phrase_def py_any_def
        skip_phrases_def lower_def lower_char_def char_of_eq_iff)
  have 1: "cost_optimizer_process_request example_world
        (build_agent_request ''how can we save money'' (PyDict [])
           (classify_intent ''how can we save money'')) =
      Inr (failure_result (name_error ''datetime'')
            ''Failed to complete cost optimization analysis'')"
    unfolding request
    by (simp add: cost_optimizer_process_request_def cost_optimizer_try_def
        generate_cost_reduction_strategies_def example_world_def source_world_def
        plain_formatters_def answer datetime_now_isoformat_def)
  have 2: "cost_optimizer_process_request example_world_with_datetime
        (build_agent_request ''how can we save money'' (PyDict [])
           (classify_intent ''how can we save money'')) =
      Inr (PyDict [(''success'', PyBool True),
                   (''optimization_type'', PyStr ''cost_reduction''),
                   (''target_savings'', PyNone),
                   (''savings_type'', PyStr ''percentage''),
                   (''strategies'', PyStr ''The network is healthy.''),
                   (''timestamp'', PyStr ''2024-05-01T10:00:00'')])"
    unfolding request
    by (simp add: cost_optimizer_process_request_def cost_optimizer_try_def
        generate_cost_reduction_strategies_def example_world_with_datetime_def
        example_world_def source_world_def plain_formatters_def answer
        datetime_now_isoformat_def)
  show ?thesis
    by (simp add: route_request_def Let_def intent agent_routes_def 1 2 empty_orchestrator_def)
qed

text \<open>
  C3 as amended. \<open>route_request\<close> leaves the conversation log unchanged: recording an
  interaction is the separate operation \<open>add_to_conversation\<close>. Whenever a call of
  \<open>add_to_conversation\<close> completes, it has appended exactly one entry for the
  interaction and then kept the last 50 entries; so when 60 calls in a row complete on
  an empty log, the log has exactly 50 entries, those of the 50 most recent interactions
  in their original order.
\<close>

theorem conversation_log_bounded:
  "snd (route_request w self user_query context) = self \<and>
   (add_to_conversation w self user_query response = (Inr (), self') \<longrightarrow>
      conversation_history self' =
        last50 (conversation_history self @ [entry_for (clock w) user_query response]) \<and>
      length (conversation_history self') = min 50 (length (conversation_history self) + 1)) \<and>
   (conversation_history self = [] \<and> length interactions = 60 \<and>
    record_all w self interactions = (Inr (), self'') \<longrightarrow>
      length (conversation_history self'') = 50 \<and>
      conversation_history self'' =
        drop 10 (map (\<lambda>(user_query, response). entry_for (clock w) user_query response)
                   interactions))"
proof (intro conjI impI)
  show "snd (route_request w self user_query context) = self"
    by (simp add: route_request_def Let_def split: option.splits)
next
  assume a: "add_to_conversation w self user_query response = (Inr (), self')"
  then show h: "conversation_history self' =
      last50 (conversation_history self @ [entry_for (clock w) user_query response])"
    by (rule add_to_conversation_history)
  show "length (conversation_history self') = min 50 (length (conversation_history self) + 1)"
    unfolding h by (simp add: last50_def)
next
  assume b: "conversation_history self = [] \<and> length interactions = 60 \<and>
    record_all w self interactions = (Inr (), self'')"
  then have h: "conversation_history self'' =
      last50 (map (\<lambda>(user_query, response). entry_for (clock w) user_query response)
                interactions)"
    using record_all_history [of w self interactions self''] by simp
  from b show "length (conversation_history self'') = 50"
    unfolding h by (simp add: last50_def)
  from b show "conversation_history self'' =
      drop 10 (map (\<lambda>(user_query, response). entry_for (clock w) user_query response)
                 interactions)"
    unfolding h by (simp add: last50_def)
qed

theorem conversation_log_bounded_witness:
  "fst (record_all example_world_with_datetime empty_orchestrator sixty_interactions) = Inr () \<and>
   length sixty_interactions = 60 \<and>
   length (conversation_history
     (snd (record_all example_world_with_datetime empty_orchestrator sixty_interactions))) = 50 \<and>
   conversation_history
     (snd (record_all example_world_with_datetime empty_orchestrator sixty_interactions)) =
   drop 10 (map (\<lambda>(user_query, response). entry_for ''2024-05-01T10:00:00'' user_query response)
              sixty_interactions)"
proof -
  have bound: "''datetime'' \<in> set (orchestrator_names example_world_with_datetime)"
    by (simp add: example_world_with_datetime_def)
  have dicts: "\<forall>x\<in>set sixty_interactions. \<exists>kvs. snd x = PyDict kvs"
    by (auto simp: sixty_interactions_def)
  from record_all_completes [OF bound dicts] obtain final where
    run: "record_all example_world_with_datetime empty_orchestrator sixty_interactions =
          (Inr (), final)"
    by blast
  have len: "length sixty_interactions = 60"
    by (simp add: sixty_interactions_def)
  have empty: "conversation_history empty_orchestrator = []"
    by (simp add: empty_orchestrator_def)
  have c: "clock example_world_with_datetime = ''2024-05-01T10:00:00''"
    by (simp add: example_world_with_datetime_def example_world_def source_world_def)
  from conversation_log_bounded [of example_world_with_datetime empty_orchestrator _ _ _ _
      sixty_interactions final] empty len run
  have "length (conversation_history final) = 50 \<and>
        conversation_history final =
          drop 10 (map (\<lambda>(user_query, response).
                     entry_for (clock example_world_with_datetime) user_query response)
                   sixty_interactions)"
    by blast
  with run len c show ?thesis
    by simp
qed

section \<open>The agents\<close>


lemma call_llm_answering:
  "call_llm answering_transport prompt max_tokens temperature = Inr ''The network is healthy.''"
  by (simp add: call_llm_def call_llm_try_def answering_transport_def raise_for_status_def
      clean_llm_response_def strip_def is_space_def has_skip_phrase_def py_any_def
      skip_phrases_def lower_def lower_char_def char_of_eq_iff)












lemma datetime_unbound_in_source:
  "datetime_now_isoformat (orchestrator_names (source_world p c F)) c' = Inl (name_error ''datetime'')"
  "datetime_now_isoformat (network_analyzer_names (source_world p c F)) c' =
     Inl (name_error ''datetime'')"
  "datetime_now_isoformat (cost_optimizer_names (source_world p c F)) c' =
     Inl (name_error ''datetime'')"
  "datetime_now_isoformat (report_generator_names (source_world p c F)) c' =
     Inl (name_error ''datetime'')"
  by (simp_all add: datetime_now_isoformat_def source_world_def)

text \<open>
  C5, the code at the failing inputs. With the modules as the source binds their names,
  the formatting strategy runs and the Gateway returns its text, and yet the result of
  each agent is the failure dictionary for \<open>NameError: name 'datetime' is not defined\<close>:
  the result dictionary of the strategy asks for \<open>datetime.now()\<close>, and none of the three
  agent modules imports \<open>datetime\<close>.
\<close>

theorem agents_fail_on_timestamp:
  "network_analyzer_process_request example_world network_summary_request =
     Inr (failure_result (name_error ''datetime'') ''Failed to complete network analysis'') \<and>
   cost_optimizer_process_request example_world cost_reduction_request =
     Inr (failure_result (name_error ''datetime'')
            ''Failed to complete cost optimization analysis'') \<and>
   report_generator_process_request example_world executive_summary_request =
     Inr (failure_result (name_error ''datetime'') ''Failed to generate report'')"
proof (intro conjI)
  show "network_analyzer_process_request example_world network_summary_request =
     Inr (failure_result (name_error ''datetime'') ''Failed to complete network analysis'')"
    unfolding example_world_def network_summary_request_def
    by (simp add: network_analyzer_process_request_def network_analyzer_try_def
        analyze_network_summary_def datetime_unbound_in_source)
      (simp add: source_world_def plain_formatters_def call_llm_answering)
  show "cost_optimizer_process_request example_world cost_reduction_request =
     Inr (failure_result (name_error ''datetime'')
            ''Failed to complete cost optimization analysis'')"
    unfolding example_world_def cost_reduction_request_def
    by (simp add: cost_optimizer_process_request_def cost_optimizer_try_def
        generate_cost_reduction_strategies_def datetime_unbound_in_source)
      (simp add: source_world_def plain_formatters_def call_llm_answering)
  show "report_generator_process_request example_world executive_summary_request =
     Inr (failure_result (name_error ''datetime'') ''Failed to generate report'')"
    unfolding example_world_def executive_summary_request_def
    by (simp add: report_generator_process_request_def report_generator_try_def
        generate_executive_summary_def datetime_unbound_in_source)
      (simp add: source_world_def plain_formatters_def call_llm_answering)
qed

section \<open>The multi-agent path\<close>

lemma complex_query_intent:
  "primary_agent (classify_intent complex_query) = ''multi_agent''"
  by code_simp

text \<open>
  C4, the code at the failing input. A query with a complexity keyword takes the
  multi-agent path, and with the orchestrator module as the source binds its names the
  call of \<open>route_request\<close> raises \<open>NameError: name 'datetime' is not defined\<close> to its
  caller: the \<open>results\<close> dictionary of \<open>_handle_multi_agent_request\<close> asks for
  \<open>datetime.now()\<close> outside any \<open>try\<close>, and the module does not import \<open>datetime\<close>.
\<close>

theorem route_request_multi_raises:
  "route_request example_world empty_orchestrator complex_query (PyDict []) =
     (Inl (name_error ''datetime''), empty_orchestrator)"
  by (simp add: route_request_def Let_def complex_query_intent handle_multi_agent_request_def
      example_world_def datetime_unbound_in_source)

text \<open>
  C8, the code at the failing input. With the orchestrator module as the source binds
  its names, \<open>_handle_multi_agent_request\<close> raises \<open>NameError\<close> before it invokes any
  agent, whatever the query, the snapshot and the intent: no integration call is made and
  no result is returned.
\<close>

theorem handle_multi_agent_request_raises:
  "handle_multi_agent_request (source_world service c F) user_query context intent =
     Inl (name_error ''datetime'')"
  by (simp add: handle_multi_agent_request_def datetime_unbound_in_source)

lemma complex_query_secondary:
  "secondary_agents (classify_intent complex_query) =
     [''network_analysis'', ''cost_optimization'', ''report_generation'']"
  by code_simp

text \<open>
  What the multi-agent path does once \<open>datetime\<close> is bound in every module: the network
  analyzer answers, but the cost agent and the report agent are asked for the strategies
  \<open>general\<close> and \<open>comprehensive\<close>, whose methods \<open>_general_cost_analysis\<close> and
  \<open>_generate_comprehensive_report\<close> the classes do not define. Their results are failure
  dictionaries without \<open>strategies\<close> and \<open>report_content\<close>, and the integration prompt
  holds the text "Not available" in their places.
\<close>

lemma multi_agent_with_datetime:
  "handle_multi_agent_request example_world_with_datetime complex_query (PyDict [])
     (classify_intent complex_query) =
   Inr (PyDict
     [(''success'', PyBool True),
      (''multi_agent_response'', PyBool True),
      (''user_query'', PyStr complex_query),
      (''agent_responses'', PyDict
         [(''network_analysis'', PyDict
             [(''success'', PyBool True),
              (''analysis_type'', PyStr ''network_summary''),
              (''analysis'', PyStr ''The network is healthy.''),
              (''timestamp'', PyStr ''2024-05-01T10:00:00'')]),
          (''cost_optimization'',
             failure_result (no_attribute ''CostOptimizerAgent'' ''_general_cost_analysis'')
               ''Failed to complete cost optimization analysis''),
          (''report_generation'',
             failure_result
               (no_attribute ''ReportGeneratorAgent'' ''_generate_comprehensive_report'')
               ''Failed to generate report'')]),
      (''integrated_response'', PyStr ''The network is healthy.''),
      (''timestamp'', PyStr ''2024-05-01T10:00:00'')])"
proof -
  have w: "post example_world_with_datetime = answering_transport"
    "clock example_world_with_datetime = ''2024-05-01T10:00:00''"
    "fmt example_world_with_datetime = plain_formatters"
    "''datetime'' \<in> set (orchestrator_names example_world_with_datetime)"
    "''datetime'' \<in> set (network_analyzer_names example_world_with_datetime)"
    by (simp_all add: example_world_with_datetime_def example_world_def source_world_def)
  have network: "network_analyzer_process_request example_world_with_datetime
      (PyDict [(''analysis_type'', PyStr ''network_summary''), (''provider_data'', PyDict [])]) =
    Inr (PyDict [(''success'', PyBool True),
                 (''analysis_type'', PyStr ''network_summary''),
                 (''analysis'', PyStr ''The network is healthy.''),
                 (''timestamp'', PyStr ''2024-05-01T10:00:00'')])"
    by (simp add: network_analyzer_process_request_def network_analyzer_try_def
        analyze_network_summary_def w datetime_now_isoformat_def call_llm_answering
        plain_formatters_def)
  have cost: "cost_optimizer_process_request example_world_with_datetime
      (PyDict [(''optimization_type'', PyStr ''general''), (''provider_data'', PyDict [])]) =
    Inr (failure_result (no_attribute ''CostOptimizerAgent'' ''_general_cost_analysis'')
           ''Failed to complete cost optimization analysis'')"
    by (simp add: cost_optimizer_process_request_def cost_optimizer_try_def)
  have report: "report_generator_process_request example_world_with_datetime
      (PyDict [(''report_type'', PyStr ''comprehensive''), (''data'', PyDict []),
               (''focus_areas'', PyList [PyStr ''performance'', PyStr ''costs'',
                                         PyStr ''optimization''])]) =
    Inr (failure_result
           (no_attribute ''ReportGeneratorAgent'' ''_generate_comprehensive_report'')
           ''Failed to generate report'')"
    by (simp add: report_generator_process_request_def report_generator_try_def)
  show ?thesis
    unfolding handle_multi_agent_request_def complex_query_secondary
    by (simp add: w datetime_now_isoformat_def network cost report Let_def
        integrate_agent_responses_def failure_result_def call_llm_answering)
qed

lemma sublist_concat: "x \<in> set xs \<Longrightarrow> sublist x (concat xs)"
proof (induction xs)
  case Nil
  then show ?case by simp
next
  case (Cons y xs)
  show ?case
  proof (cases "x = y")
    case True
    then show ?thesis by (simp add: sublist_appendI)
  next
    case False
    with Cons have "sublist x (concat xs)" by simp
    then show ?thesis by (simp add: sublist_append)
  qed
qed

text \<open>
  The integration step by itself: the prompt of \<open>_integrate_agent_responses\<close> contains
  the user query and the three texts put into it as contiguous runs of characters; and
  for agent responses of which the first carries an \<open>analysis\<close> text and the other two
  are failure dictionaries, the one Gateway call it makes gets the prompt with
  "Not available" in the second and third place.
\<close>

lemma integration_prompt_contains:
  "sublist user_query (integration_prompt user_query analysis strategies report_content) \<and>
   sublist analysis (integration_prompt user_query analysis strategies report_content) \<and>
   sublist strategies (integration_prompt user_query analysis strategies report_content) \<and>
   sublist report_content (integration_prompt user_query analysis strategies report_content)"
  unfolding integration_prompt_def by (intro conjI sublist_concat) simp_all

lemma integrate_failed_agents:
  "integrate_agent_responses w user_query
     (PyDict [(''network_analysis'', PyDict [(''success'', PyBool True),
                                              (''analysis'', PyStr analysis)]),
              (''cost_optimization'', failure_result e1 m1),
              (''report_generation'', failure_result e2 m2)]) =
   call_llm (post w)
     (integration_prompt user_query analysis ''Not available'' ''Not available'') 1500 0.3"
  by (simp add: integrate_agent_responses_def failure_result_def interpolate_def)

end
